theory Spec2Isabelle
  imports Complex_Main "HOL-Library.Log_Nat" "HOL-Library.AList" "HOL-Library.Sublist"
begin

section \<open>Python values and exceptions\<close>

text \<open>
  The library (\<open>pyapp_env/classes.py\<close>, \<open>pyapp_env/secure_value.py\<close>) works on
  arbitrary Python objects. The development fixes a universe of values: the absent value,
  booleans, unbounded integers, floats, text, lists, dictionaries, function objects (whose
  class cannot be subclassed), the \<open>NotImplemented\<close> sentinel, configuration cells
  (\<open>ConfigValue\<close>), and the two forms of masking proxy that \<open>CreateSecureValue\<close>
  synthesizes. Text is a list of 8-bit characters read as code points 0..255; a finite
  float is the rational number it denotes.

  A configuration cell carries its accepted value; its reference to the descriptor is not
  represented, no operation below reads it. A mutable-form proxy records the
  \<open>ignored_class\<close> and \<open>ignored_method\<close> arguments its forwarding wrappers were
  built with.
\<close>

datatype pytype =
  TObject | TNoneType | TBool | TInt | TFloat | TStr | TList | TDict
  | TFunction | TNotImplementedType | TConfigValue | TSecureValue

datatype pyfloat = Finite rat | PosInf | NegInf | NaN

datatype pyval =
  PNone
  | PBool bool
  | PInt int
  | PFloat pyfloat
  | PStr string
  | PList "pyval list"
  | PDict "(pyval \<times> pyval) list"
  | PFunc string
  | PNotImplemented
  | PConfigValue pyval
  | SecureImm pyval
  | SecureMut "pytype option" "string list" pyval

text \<open>
  An exception is its class, the message as the source writes it (an f-string keeps its
  placeholders) and the values interpolated into the placeholders, in order.
\<close>

datatype exn =
  ValueError | TypeError | KeyError | AttributeError | OverflowError | IndexError
  | ImmutableError | ReError | OtherError string

datatype error = Raised exn string "pyval list"

type_synonym 'a result = "error + 'a"

definition bind_result :: "'a result \<Rightarrow> ('a \<Rightarrow> 'b result) \<Rightarrow> 'b result" where
  "bind_result r f = (case r of Inl e \<Rightarrow> Inl e | Inr x \<Rightarrow> f x)"

fun type_name :: "pytype \<Rightarrow> string" where
  "type_name TObject = ''object''"
| "type_name TNoneType = ''NoneType''"
| "type_name TBool = ''bool''"
| "type_name TInt = ''int''"
| "type_name TFloat = ''float''"
| "type_name TStr = ''str''"
| "type_name TList = ''list''"
| "type_name TDict = ''dict''"
| "type_name TFunction = ''function''"
| "type_name TNotImplementedType = ''NotImplementedType''"
| "type_name TConfigValue = ''ConfigValue''"
| "type_name TSecureValue = ''SecureValue''"

text \<open>\<open>class_of v\<close> is \<open>v.__class__\<close>; every synthesized proxy class is named
  \<open>SecureValue\<close>.\<close>

fun class_of :: "pyval \<Rightarrow> pytype" where
  "class_of PNone = TNoneType"
| "class_of (PBool _) = TBool"
| "class_of (PInt _) = TInt"
| "class_of (PFloat _) = TFloat"
| "class_of (PStr _) = TStr"
| "class_of (PList _) = TList"
| "class_of (PDict _) = TDict"
| "class_of (PFunc _) = TFunction"
| "class_of PNotImplemented = TNotImplementedType"
| "class_of (PConfigValue _) = TConfigValue"
| "class_of (SecureImm _) = TSecureValue"
| "class_of (SecureMut _ _ _) = TSecureValue"

definition class_name :: "pyval \<Rightarrow> string" where
  "class_name v = type_name (class_of v)"

text \<open>
  The classes an object is an instance of. A proxy class is derived from
  \<open>value_class\<close>, the class of the original value, except that
  \<open>CreateSecureValue\<close> replaces \<open>bool\<close> by \<open>int\<close> (\<open>bool\<close> cannot be
  subclassed).
\<close>

fun mro :: "pyval \<Rightarrow> pytype list" where
  "mro PNone = [TNoneType, TObject]"
| "mro (PBool _) = [TBool, TInt, TObject]"
| "mro (PInt _) = [TInt, TObject]"
| "mro (PFloat _) = [TFloat, TObject]"
| "mro (PStr _) = [TStr, TObject]"
| "mro (PList _) = [TList, TObject]"
| "mro (PDict _) = [TDict, TObject]"
| "mro (PFunc _) = [TFunction, TObject]"
| "mro PNotImplemented = [TNotImplementedType, TObject]"
| "mro (PConfigValue _) = [TConfigValue, TObject]"
| "mro (SecureImm v) = TSecureValue # (if TBool \<in> set (mro v) then [TInt, TObject] else mro v)"
| "mro (SecureMut _ _ v) = TSecureValue # (if TBool \<in> set (mro v) then [TInt, TObject] else mro v)"

definition py_isinstance :: "pyval \<Rightarrow> pytype \<Rightarrow> bool" where
  "py_isinstance v t = (t \<in> set (mro v))"

fun is_proxy :: "pyval \<Rightarrow> bool" where
  "is_proxy (SecureImm _) = True"
| "is_proxy (SecureMut _ _ _) = True"
| "is_proxy _ = False"

text \<open>The \<open>_original_data\<close> attribute of a proxy.\<close>

fun original_data :: "pyval \<Rightarrow> pyval option" where
  "original_data (SecureImm v) = Some v"
| "original_data (SecureMut _ _ v) = Some v"
| "original_data _ = None"

section \<open>Global masking policy (\<open>global_vars.py\<close>)\<close>

record policy =
  show_secured_values :: bool
  make_secured_values_mutable :: bool

section \<open>\<open>NoInheritClass\<close> and class creation\<close>

text \<open>
  \<open>NoInheritClass.__init__(cls, name, bases, dct)\<close> runs \<open>type.__init__\<close> and then
  raises \<open>ImmutableError\<close> when \<open>bases\<close> is not empty. The argument \<open>bases\<close> is the
  tuple written in the class statement; here its elements are of any type \<open>'c\<close>.
\<close>

definition NoInheritClass_init :: "string \<Rightarrow> 'c list \<Rightarrow> unit result" where
  "NoInheritClass_init name bases =
     (if bases \<noteq> [] then Inl (Raised ImmutableError ''Subclassing of {name} is not allowed'' [PStr name])
      else Inr ())"
















section \<open>The masking proxy (\<open>secure_value.py\<close>)\<close>

definition compariosn_methods_with_type_error :: "string list" where
  "compariosn_methods_with_type_error = [''__lt__'', ''__le__'', ''__gt__'', ''__ge__'']"

definition compariosn_methods_with_return :: "string list" where
  "compariosn_methods_with_return = [''__eq__'', ''__ne__'']"

definition comparion_method_symbol :: "(string \<times> string) list" where
  "comparion_method_symbol =
     [(''__eq__'', ''==''), (''__ne__'', ''!=''), (''__lt__'', ''<''),
      (''__le__'', ''<=''), (''__gt__'', ''>''), (''__ge__'', ''>='')]"

text \<open>
  \<open>check_inheritable_class\<close> tries \<open>class Test(class_name): pass\<close> and answers
  \<open>False\<close> on \<open>TypeError\<close>. The classes of the absent value, of booleans, of functions
  and of \<open>NotImplemented\<close> refuse to be a base type. \<open>ConfigValue\<close> accepts being a
  base, but its metaclass then raises \<open>ImmutableError\<close>, which is not caught.
\<close>

fun acceptable_base :: "pytype \<Rightarrow> bool" where
  "acceptable_base TNoneType = False"
| "acceptable_base TBool = False"
| "acceptable_base TFunction = False"
| "acceptable_base TNotImplementedType = False"
| "acceptable_base _ = True"

definition check_inheritable_class :: "pytype \<Rightarrow> bool result" where
  "check_inheritable_class c =
     (if \<not> acceptable_base c then Inr False
      else if c = TConfigValue then bind_result (NoInheritClass_init ''Test'' [c]) (\<lambda>_. Inr True)
      else Inr True)"

definition is_ignored :: "pytype option \<Rightarrow> pyval \<Rightarrow> bool" where
  "is_ignored ignored_class v = (case ignored_class of None \<Rightarrow> False | Some c \<Rightarrow> py_isinstance v c)"

text \<open>
  A mutable-form proxy class holds a forwarding wrapper for every method \<open>dir(value)\<close>
  lists, \<open>__setattr__\<close>, \<open>__dir__\<close> and \<open>__eq__\<close> among them, and a class derived from
  it inherits them. \<open>inherited_wrapper\<close> gives the arguments of the forwarding wrappers
  a proxy class has or inherits.

  A wrapper looks up \<open>method.__name__\<close> on the original. When the original is itself a
  proxy with forwarding wrappers, the methods found on it are those wrappers, bound, and
  their \<open>__name__\<close> is \<open>wrapped\<close>: every wrapper built from them looks up the attribute
  \<open>wrapped\<close>, which no value has, and raises \<open>AttributeError\<close>. \<open>wraps_wrapper\<close> tells
  that the wrappers of a proxy are of this kind.
\<close>

fun inherited_wrapper :: "pyval \<Rightarrow> (pytype option \<times> string list) option" where
  "inherited_wrapper (SecureMut ic ims _) = Some (ic, ims)"
| "inherited_wrapper (SecureImm v) = inherited_wrapper v"
| "inherited_wrapper _ = None"

fun wraps_wrapper :: "pyval \<Rightarrow> bool" where
  "wraps_wrapper (SecureMut _ _ v) = (inherited_wrapper v \<noteq> None)"
| "wraps_wrapper (SecureImm v) = wraps_wrapper v"
| "wraps_wrapper _ = False"

definition missing_wrapped :: error where
  "missing_wrapped =
     Raised AttributeError (CHR 0x27 # ''SecureValue' object has no attribute 'wrapped'' @ [CHR 0x27]) []"

text \<open>
  The immutable form is \<open>SecureValue(value)\<close>: the \<open>__new__\<close> of the built-in base, then
  \<open>__init__\<close>, which assigns \<open>self._original_data\<close>. When the class of \<open>value\<close> has
  forwarding wrappers, the new class inherits \<open>__setattr__\<close> from it and the assignment
  is forwarded to the original of \<open>value\<close> (\<open>forwarded_original\<close>, the class attribute
  \<open>_original_data\<close>), a built-in object without that attribute: \<open>AttributeError\<close>.
\<close>

fun forwarded_original :: "pyval \<Rightarrow> pyval" where
  "forwarded_original (SecureMut _ _ orig) = orig"
| "forwarded_original (SecureImm v) = forwarded_original v"
| "forwarded_original v = v"

definition SecureValue_call :: "pyval \<Rightarrow> pyval result" where
  "SecureValue_call v =
     (if inherited_wrapper v = None then Inr (SecureImm v)
      else if wraps_wrapper v then Inl missing_wrapped
      else Inl (Raised AttributeError
             (CHR 0x27 # ''{type}' object has no attribute '_original_data'' @ [CHR 0x27])
             [PStr (class_name (forwarded_original v))]))"

text \<open>
  The mutable form starts with the loop over \<open>dir(value)\<close>. On a proxy with forwarding
  wrappers \<open>dir\<close> is forwarded: it lists the names of the original, or raises when the
  wrappers wrap wrappers.
\<close>

definition dir_loop :: "pyval \<Rightarrow> unit result" where
  "dir_loop v = (if wraps_wrapper v then Inl missing_wrapped else Inr ())"

text \<open>
  The loop that copies the non-callable attributes of the original onto a mutable-form
  proxy runs when \<open>type(value)\<close> is not one of the listed immutable built-ins; it skips
  \<open>__doc__\<close>. For a list or a dictionary the one write, of \<open>__hash__\<close>, is excused.

  When the original is an immutable-form proxy, the writes are forwarded to it, in the
  order of \<open>dir\<close>, and the first one that fails is re-raised: the read-only
  \<open>denominator\<close> of an integer, \<open>imag\<close> of a float, and otherwise \<open>unmasked\<close>, a
  property without a setter.

  When the original is a mutable-form proxy, \<open>dir\<close> gave the names of its own original,
  so \<open>unmasked\<close> and \<open>_original_data\<close> are not copied. For text the only name is
  \<open>__doc__\<close> and the loop does nothing. For the other built-in classes there is a name
  to write (\<open>__hash__\<close>, \<open>denominator\<close>, \<open>imag\<close>), the write goes through the new class's
  \<open>__setattr__\<close>, a wrapper of a wrapper, and its \<open>AttributeError\<close> is re-raised
  (\<open>type(value)\<close> is the proxy class, not \<open>list\<close> or \<open>dict\<close>).
\<close>

fun value_class_is_immutable :: "pytype \<Rightarrow> bool" where
  "value_class_is_immutable TNoneType = True"
| "value_class_is_immutable TInt = True"
| "value_class_is_immutable TFloat = True"
| "value_class_is_immutable TBool = True"
| "value_class_is_immutable TStr = True"
| "value_class_is_immutable TFunction = True"
| "value_class_is_immutable TNotImplementedType = True"
| "value_class_is_immutable _ = False"

definition copy_properties :: "pyval \<Rightarrow> unit result" where
  "copy_properties v =
     (case v of
        SecureMut _ _ orig \<Rightarrow> (case orig of PStr _ \<Rightarrow> Inr () | _ \<Rightarrow> Inl missing_wrapped)
      | SecureImm _ \<Rightarrow>
          if TInt \<in> set (mro v)
          then Inl (Raised AttributeError ''attribute 'denominator' of 'int' objects is not writable'' [])
          else if TFloat \<in> set (mro v)
          then Inl (Raised AttributeError ''attribute 'imag' of 'float' objects is not writable'' [])
          else Inl (Raised AttributeError ''property 'unmasked' of 'CreateSecureValue.<locals>.SecureValue' object has no setter'' [])
      | _ \<Rightarrow> Inr ())"

definition CreateSecureValue ::
  "pyval \<Rightarrow> bool \<Rightarrow> pytype option \<Rightarrow> string list \<Rightarrow> pyval result" where
  "CreateSecureValue v is_mutable ignored_class ignored_method =
     (if is_ignored ignored_class v \<or> py_isinstance v TNoneType then Inr v
      else
        let ignored_method' = (if ignored_method = [] then [''__len__''] else ignored_method);
            value_class = (if py_isinstance v TBool then TInt else class_of v)
        in if \<not> is_mutable then
             bind_result (check_inheritable_class value_class)
               (\<lambda>ok. if \<not> ok then Inr v else SecureValue_call v)
           else
             bind_result (dir_loop v) (\<lambda>_.
             bind_result (check_inheritable_class value_class)
               (\<lambda>ok. if \<not> ok then Inr v
                     else if value_class_is_immutable (class_of v)
                     then Inr (SecureMut ignored_class ignored_method' v)
                     else bind_result (copy_properties v)
                            (\<lambda>_. Inr (SecureMut ignored_class ignored_method' v)))))"

text \<open>
  \<open>wrapped\<close> is the forwarding wrapper \<open>method_wrapper\<close> installs for the member
  \<open>name\<close>. The call of the member on the original value,
  \<open>getattr(self._original_data, name)(*args)\<close>, is Python's own and is the parameter
  \<open>call\<close>. \<open>wrapped_result\<close> is what the wrapper does with the result of that call.
\<close>

definition wrapped_result ::
  "pytype option \<Rightarrow> string list \<Rightarrow> string \<Rightarrow> pyval \<Rightarrow> pyval list \<Rightarrow> pyval \<Rightarrow> pyval result" where
  "wrapped_result ignored_class ignored_methods name self args res =
     (if res = PNone \<or> is_ignored ignored_class res \<or> name \<in> set ignored_methods then Inr res
      else if py_isinstance res TNotImplementedType \<and> name \<in> set compariosn_methods_with_type_error then
        (case args of
           [] \<Rightarrow> Inl (Raised IndexError ''tuple index out of range'' [])
         | value # _ \<Rightarrow>
             (case map_of comparion_method_symbol name of
                None \<Rightarrow> Inl (Raised KeyError ''{name}'' [PStr name])
              | Some symbol \<Rightarrow>
                  Inl (Raised TypeError
                    (CHR 0x27 # ''{symbol}' not supported between instances of '{self.__class__.__name__}' and '{value.__class__.__name__}'' @ [CHR 0x27])
                    [PStr symbol, PStr (class_name self), PStr (class_name value)])))
      else if py_isinstance res TNotImplementedType \<and> name \<in> set compariosn_methods_with_return then
        Inr (PBool False)
      else CreateSecureValue res True ignored_class ignored_methods)"

definition wrapped ::
  "(pyval \<Rightarrow> string \<Rightarrow> pyval list \<Rightarrow> pyval result) \<Rightarrow> pytype option \<Rightarrow> string list \<Rightarrow> string
     \<Rightarrow> pyval \<Rightarrow> pyval list \<Rightarrow> pyval result" where
  "wrapped call ignored_class ignored_methods name self args =
     (case original_data self of
        None \<Rightarrow> Inl (Raised AttributeError ''_original_data'' [])
      | Some orig \<Rightarrow>
          bind_result (call orig name args)
            (wrapped_result ignored_class ignored_methods name self args))"

text \<open>
  Display and reveal. Both proxy classes define \<open>__str__\<close> and \<open>__repr__\<close> as the
  constant \<open>"******"\<close>; \<open>builtin\<close> stands for Python's display of every other value.
  \<open>unmasked\<close> is the reveal accessor, a property only proxies have.
\<close>

definition redaction_marker :: string where
  "redaction_marker = ''******''"

definition py_str :: "(pyval \<Rightarrow> string) \<Rightarrow> pyval \<Rightarrow> string" where
  "py_str builtin v = (if is_proxy v then redaction_marker else builtin v)"

definition py_repr :: "(pyval \<Rightarrow> string) \<Rightarrow> pyval \<Rightarrow> string" where
  "py_repr builtin v = (if is_proxy v then redaction_marker else builtin v)"

definition unmasked :: "pyval \<Rightarrow> pyval result" where
  "unmasked v =
     (case original_data v of
        Some orig \<Rightarrow> Inr orig
      | None \<Rightarrow> Inl (Raised AttributeError (''object has no attribute 'unmasked'' @ [CHR 0x27]) []))"

text \<open>\<open>StandardDataType.convert_to_secure_value\<close>, with the descriptor's \<open>mask_value\<close>
  and the two global switches as arguments.\<close>

definition convert_to_secure_value :: "policy \<Rightarrow> bool \<Rightarrow> pyval \<Rightarrow> pyval result" where
  "convert_to_secure_value pol mask_value v =
     (if mask_value \<and> \<not> show_secured_values pol
      then CreateSecureValue v (make_secured_values_mutable pol) (Some TConfigValue) []
      else Inr v)"

section \<open>Text: whitespace, case, splitting\<close>

text \<open>
  \<open>str.strip\<close> removes the characters for which \<open>str.isspace\<close> holds; among the
  code points 0..255 these are 9..13, 28..32, 133 and 160. \<open>str.lower\<close> maps A..Z and
  the upper-case letters 192..222 (but 215) to the letter 32 places up.
\<close>

definition is_space :: "char \<Rightarrow> bool" where
  "is_space c = ((of_char c :: nat) \<in> set [9, 10, 11, 12, 13, 28, 29, 30, 31, 32, 133, 160])"

definition py_strip :: "string \<Rightarrow> string" where
  "py_strip s = rev (dropWhile is_space (rev (dropWhile is_space s)))"

definition py_lower_char :: "char \<Rightarrow> char" where
  "py_lower_char c =
     (let n = (of_char c :: nat)
      in if (65 \<le> n \<and> n \<le> 90) \<or> (192 \<le> n \<and> n \<le> 222 \<and> n \<noteq> 215) then char_of (n + 32) else c)"

definition py_lower :: "string \<Rightarrow> string" where
  "py_lower s = map py_lower_char s"

text \<open>\<open>s.split(c)\<close> for a one-character separator.\<close>

fun py_split :: "char \<Rightarrow> string \<Rightarrow> string list" where
  "py_split c [] = [[]]"
| "py_split c (x # xs) =
     (if x = c then [] # py_split c xs
      else (case py_split c xs of [] \<Rightarrow> [[x]] | p # ps \<Rightarrow> (x # p) # ps))"

section \<open>Regular expressions\<close>

text \<open>
  The fragment of Python's \<open>re\<close> that the patterns of \<open>classes.py\<close> use: literal
  characters, character classes given by ranges (\<open>[A-Z]\<close>, \<open>[^@]\<close>, \<open>\d\<close> which on
  code points 0..255 is \<open>[0-9]\<close>), one-or-more repetition of a class, concatenation,
  alternation, an optional group, \<open>^\<close> and \<open>$\<close>. \<open>rx_run\<close> returns every way the
  pattern can match at the head of the remaining text, as the text left over; the first
  component of a state says whether it is the start of the subject. Without
  \<open>re.MULTILINE\<close>, \<open>$\<close> matches at the end and before a final newline. Under
  \<open>re.IGNORECASE\<close> (the flag \<open>ic\<close>) a literal matches both cases of a letter; the
  source uses the flag only on a pattern of literals.
\<close>

datatype cset = Set "(char \<times> char) list" | NotSet "(char \<times> char) list"

datatype rx = Eps | Lit char | Atom cset | Many1 cset | Cat rx rx | Alt rx rx | Opt rx | Bol | Eol

definition in_ranges :: "(char \<times> char) list \<Rightarrow> char \<Rightarrow> bool" where
  "in_ranges rs c =
     list_ex (\<lambda>(lo, hi). (of_char lo :: nat) \<le> of_char c \<and> (of_char c :: nat) \<le> of_char hi) rs"

fun cset_mem :: "cset \<Rightarrow> char \<Rightarrow> bool" where
  "cset_mem (Set rs) c = in_ranges rs c"
| "cset_mem (NotSet rs) c = (\<not> in_ranges rs c)"

definition lit_match :: "bool \<Rightarrow> char \<Rightarrow> char \<Rightarrow> bool" where
  "lit_match ic c x = (if ic then py_lower_char x = py_lower_char c else x = c)"

fun many1 :: "cset \<Rightarrow> string \<Rightarrow> string list" where
  "many1 cs [] = []"
| "many1 cs (x # xs) = (if cset_mem cs x then xs # many1 cs xs else [])"

fun rx_run :: "bool \<Rightarrow> rx \<Rightarrow> bool \<times> string \<Rightarrow> (bool \<times> string) list" where
  "rx_run ic Eps st = [st]"
| "rx_run ic (Lit c) (b, s) =
     (case s of [] \<Rightarrow> [] | x # xs \<Rightarrow> if lit_match ic c x then [(False, xs)] else [])"
| "rx_run ic (Atom cs) (b, s) =
     (case s of [] \<Rightarrow> [] | x # xs \<Rightarrow> if cset_mem cs x then [(False, xs)] else [])"
| "rx_run ic (Many1 cs) (b, s) = map (Pair False) (many1 cs s)"
| "rx_run ic (Cat p q) st = concat (map (rx_run ic q) (rx_run ic p st))"
| "rx_run ic (Alt p q) st = rx_run ic p st @ rx_run ic q st"
| "rx_run ic (Opt p) st = rx_run ic p st @ [st]"
| "rx_run ic Bol (b, s) = (if b then [(b, s)] else [])"
| "rx_run ic Eol (b, s) = (if s = [] \<or> s = [CHR 0x0A] then [(b, s)] else [])"

text \<open>\<open>re.match\<close> tries the pattern at the start of the subject only; \<open>re.search\<close>
  tries every position.\<close>

definition re_match :: "bool \<Rightarrow> rx \<Rightarrow> string \<Rightarrow> bool" where
  "re_match ic r s = (rx_run ic r (True, s) \<noteq> [])"

fun re_search_from :: "bool \<Rightarrow> rx \<Rightarrow> bool \<Rightarrow> string \<Rightarrow> bool" where
  "re_search_from ic r b [] = (rx_run ic r (b, []) \<noteq> [])"
| "re_search_from ic r b (x # xs) = (rx_run ic r (b, x # xs) \<noteq> [] \<or> re_search_from ic r False xs)"

definition re_search :: "bool \<Rightarrow> rx \<Rightarrow> string \<Rightarrow> bool" where
  "re_search ic r s = re_search_from ic r True s"

definition lits :: "string \<Rightarrow> rx" where
  "lits s = foldr (\<lambda>c r. Cat (Lit c) r) s Eps"

definition alts :: "rx list \<Rightarrow> rx" where
  "alts rs = (case rs of [] \<Rightarrow> Eps | r # rest \<Rightarrow> foldl Alt r rest)"

section \<open>Numbers: \<open>int()\<close> and \<open>float()\<close>\<close>

text \<open>
  \<open>int(s)\<close> on text, base 10, as \<open>PyLong_FromString\<close> reads it. Leading whitespace
  is skipped, one sign is allowed, and the text after it may not start with an
  underscore. The scan then runs over digits and underscores; two underscores in a row
  or an underscore at the end of the run are an error. The whitespace here is that of
  \<open>Py_ISSPACE\<close>, after the non-ASCII spaces were made blanks: the code points 9 to 13,
  32, 133 and 160, and not 28 to 31, which \<open>str.strip\<close> drops.
\<close>

definition is_digit :: "char \<Rightarrow> bool" where
  "is_digit c = (48 \<le> (of_char c :: nat) \<and> (of_char c :: nat) \<le> 57)"

definition digit_val :: "char \<Rightarrow> int" where
  "digit_val c = int (of_char c) - 48"

definition is_literal_space :: "char \<Rightarrow> bool" where
  "is_literal_space c = ((of_char c :: nat) \<in> set [9, 10, 11, 12, 13, 32, 133, 160])"

text \<open>\<open>scan_digits acc n prev cs\<close>: the value and the number of the digits read so far,
  whether the previous character was an underscore, and the text left. The result is
  the value, the number of digits and the text after the run; \<open>None\<close> is the error.\<close>

fun scan_digits :: "int \<Rightarrow> nat \<Rightarrow> bool \<Rightarrow> string \<Rightarrow> (int \<times> nat \<times> string) option" where
  "scan_digits acc n prev [] = (if prev then None else Some (acc, n, []))"
| "scan_digits acc n prev (c # cs) =
     (if is_digit c then scan_digits (10 * acc + digit_val c) (Suc n) False cs
      else if c = CHR ''_'' then (if prev then None else scan_digits acc n True cs)
      else if prev then None
      else Some (acc, n, c # cs))"

definition int_scan :: "string \<Rightarrow> (bool \<times> int \<times> nat \<times> string) option" where
  "int_scan s =
     (let t = dropWhile is_literal_space s;
          negative = (t \<noteq> [] \<and> hd t = CHR ''-'');
          u = (if t \<noteq> [] \<and> (hd t = CHR ''-'' \<or> hd t = CHR ''+'') then tl t else t)
      in if u \<noteq> [] \<and> hd u = CHR ''_'' then None
         else map_option (Pair negative) (scan_digits 0 0 False u))"

text \<open>
  After the scan: a run of more than 640 digits that is longer than the limit
  (\<open>sys.get_int_max_str_digits()\<close>, 4300 unless changed, 0 for no limit) is refused;
  then a run without a digit, or anything but whitespace after the run, is an invalid
  literal.
\<close>

definition invalid_literal :: "string \<Rightarrow> error" where
  "invalid_literal s =
     Raised ValueError ''invalid literal for int() with base 10: {value!r}'' [PStr s]"

definition py_int_str :: "nat \<Rightarrow> string \<Rightarrow> int result" where
  "py_int_str max_str_digits s =
     (case int_scan s of
        None \<Rightarrow> Inl (invalid_literal s)
      | Some (negative, a, n, rest) \<Rightarrow>
          if 640 < n \<and> 0 < max_str_digits \<and> max_str_digits < n
          then Inl (Raised ValueError
                 ''Exceeds the limit ({max_str_digits} digits) for integer string conversion: value has {digits} digits; use sys.set_int_max_str_digits() to increase the limit''
                 [PInt (int max_str_digits), PInt (int n)])
          else if n = 0 \<or> dropWhile is_literal_space rest \<noteq> [] then Inl (invalid_literal s)
          else Inr (if negative then - a else a))"

text \<open>\<open>int_literal s\<close> is the integer a text denotes by this grammar, of any length.
  \<open>float()\<close> reads such a text as well, without a limit on the digits.\<close>

definition int_literal :: "string \<Rightarrow> int option" where
  "int_literal s =
     (case int_scan s of
        None \<Rightarrow> None
      | Some (negative, a, n, rest) \<Rightarrow>
          if n = 0 \<or> dropWhile is_literal_space rest \<noteq> [] then None
          else Some (if negative then - a else a))"

text \<open>\<open>str(n)\<close> for an integer: the decimal digits, most significant first, after a
  minus sign when negative.\<close>

definition digit_char :: "nat \<Rightarrow> char" where
  "digit_char d = char_of (48 + d)"

fun digits_of :: "nat \<Rightarrow> string" where
  "digits_of n = (if n < 10 then [digit_char n] else digits_of (n div 10) @ [digit_char (n mod 10)])"

declare digits_of.simps [simp del]

definition py_str_int :: "int \<Rightarrow> string" where
  "py_str_int n = (if n < 0 then CHR ''-'' # digits_of (nat (- n)) else digits_of (nat n))"

text \<open>
  The binary64 float nearest to an integer, ties to even: an integer of at most 53 bits
  is exact; a longer one keeps its 53 leading bits, rounded. \<open>None\<close> when the rounded
  magnitude reaches \<open>2 ^ 1024\<close>. \<open>float(s)\<close> on the text of an integer rounds
  correctly and overflows to an infinity; \<open>float(n)\<close> on an integer object raises
  \<open>OverflowError\<close> instead.
\<close>

definition round_binary64 :: "int \<Rightarrow> int option" where
  "round_binary64 n =
     (let a = \<bar>n\<bar>
      in if a < 2 ^ 53 then Some n
         else
           let e = nat (bitlen a - 53);
               q = a div 2 ^ e;
               r = a mod 2 ^ e;
               h = 2 ^ (e - 1);
               m = (if r > h \<or> (r = h \<and> odd q) then q + 1 else q);
               v = m * 2 ^ e
           in if v \<ge> 2 ^ 1024 then None else Some (sgn n * v))"

definition float_of_int_text :: "int \<Rightarrow> pyfloat" where
  "float_of_int_text n =
     (case round_binary64 n of
        Some v \<Rightarrow> Finite (of_int v)
      | None \<Rightarrow> if n < 0 then NegInf else PosInf)"

definition float_of_int :: "int \<Rightarrow> pyfloat result" where
  "float_of_int n =
     (case round_binary64 n of
        Some v \<Rightarrow> Inr (Finite (of_int v))
      | None \<Rightarrow> Inl (Raised OverflowError ''int too large to convert to float'' []))"

text \<open>\<open>int(x)\<close> on a float truncates toward zero and refuses infinities and NaN.\<close>

definition int_of_float :: "pyfloat \<Rightarrow> int result" where
  "int_of_float f =
     (case f of
        Finite q \<Rightarrow> Inr (if q \<ge> 0 then \<lfloor>q\<rfloor> else \<lceil>q\<rceil>)
      | NaN \<Rightarrow> Inl (Raised ValueError ''cannot convert float NaN to integer'' [])
      | _ \<Rightarrow> Inl (Raised OverflowError ''cannot convert float infinity to integer'' []))"

text \<open>\<open>i != f\<close> between an integer and a float compares the exact values.\<close>

definition int_ne_float :: "int \<Rightarrow> pyfloat \<Rightarrow> bool" where
  "int_ne_float i f = (case f of Finite q \<Rightarrow> of_int i \<noteq> q | _ \<Rightarrow> True)"

section \<open>Type descriptors (\<open>classes.py\<close>)\<close>

text \<open>
  The twelve descriptor classes with the options their constructors take. The first
  argument is the caller's validator (\<open>user_validator\<close>): it returns the exception it
  raises, or \<open>None\<close> when it returns normally; a descriptor built without one has the
  inherited method that does nothing. The booleans are \<open>convert\<close>, then
  \<open>support_boolean\<close> (Integer) or \<open>support_inf\<close> and \<open>support_boolean\<close> (Float).
\<close>

datatype special_list = SpecialStr string | SpecialList "string list"

record password_options =
  min_length :: int
  max_length :: "int option"
  special_chars :: bool
  numbers :: bool
  uppercase :: bool
  lowercase :: bool
  special_chars_list :: special_list

type_synonym user_check = "pyval \<Rightarrow> error option"

datatype descriptor =
  StringDataType user_check
  | IntegerDataType user_check bool bool
  | PositiveIntegerDataType user_check bool
  | NegativeIntegerDataType user_check bool
  | FloatDataType user_check bool bool bool
  | BooleanDataType user_check bool
  | ListDataType user_check bool
  | DictDataType user_check bool
  | AnyDataType user_check
  | SecretDataType user_check
  | StrongPasswordDataType user_check password_options
  | EmailDataType user_check

definition no_user_validator :: user_check where
  "no_user_validator = (\<lambda>_. None)"

text \<open>
  \<open>StrongPasswordDataType.__init__\<close>: \<open>max_length or float("inf")\<close> (the field is
  \<open>None\<close> for infinity), \<open>special_chars_list or "!@#$%^&*()_+"\<close>, and
  \<open>__validate_special_chars\<close>, which returns at once when \<open>special_chars\<close> is off and
  otherwise joins a list into one text. The four toggles are stored.
\<close>

datatype special_arg = ArgNone | ArgStr string | ArgList "string list"

definition SPECIAL_CHARS :: string where
  "SPECIAL_CHARS = ''!@#$%^&*()_+''"

definition StrongPassword_options ::
  "int \<Rightarrow> int option \<Rightarrow> bool \<Rightarrow> bool \<Rightarrow> bool \<Rightarrow> bool \<Rightarrow> special_arg \<Rightarrow> password_options" where
  "StrongPassword_options min_len max_len special nums upper lower chars =
     (let given = (case chars of
                     ArgNone \<Rightarrow> SpecialStr SPECIAL_CHARS
                   | ArgStr t \<Rightarrow> if t = [] then SpecialStr SPECIAL_CHARS else SpecialStr t
                   | ArgList l \<Rightarrow> if l = [] then SpecialStr SPECIAL_CHARS else SpecialList l);
          validated = (if \<not> special then given
                       else (case given of SpecialList l \<Rightarrow> SpecialStr (concat l) | _ \<Rightarrow> given))
      in \<lparr>min_length = min_len,
          max_length = (case max_len of None \<Rightarrow> None | Some m \<Rightarrow> if m = 0 then None else Some m),
          special_chars = special, numbers = nums, uppercase = upper, lowercase = lower,
          special_chars_list = validated\<rparr>)"

definition default_password_options :: password_options where
  "default_password_options = StrongPassword_options 8 None True True True True ArgNone"

text \<open>
  What the library takes from outside the repository: the \<open>tld\<close> package
  (\<open>get_tld\<close> answers whether the lookup returns rather than raises), \<open>json.loads\<close>
  (\<open>None\<close> is \<open>JSONDecodeError\<close>), \<open>float()\<close> on text that is not the text of an
  integer, the interpreter's limit on the digits of an integer text, and \<open>re.search\<close>
  for a special-character class whose text has a character with a meaning of its own
  inside brackets. The last two fields are the conversion and
  the semantic check of a descriptor applied to a masking proxy, which depend on how
  CPython treats an instance of the synthesized subclass.
\<close>

record runtime =
  get_tld :: "string \<Rightarrow> bool"
  json_loads :: "string \<Rightarrow> pyval option"
  float_of_text :: "string \<Rightarrow> pyfloat option"
  int_max_str_digits :: nat
  re_search_special :: "special_list \<Rightarrow> string \<Rightarrow> bool result"
  proxy_convert_type :: "descriptor \<Rightarrow> pyval \<Rightarrow> pyval result"
  proxy_value_validator :: "descriptor \<Rightarrow> pyval \<Rightarrow> unit result"

fun data_type :: "descriptor \<Rightarrow> pytype" where
  "data_type (StringDataType _) = TStr"
| "data_type (IntegerDataType _ _ _) = TInt"
| "data_type (PositiveIntegerDataType _ _) = TInt"
| "data_type (NegativeIntegerDataType _ _) = TInt"
| "data_type (FloatDataType _ _ _ _) = TFloat"
| "data_type (BooleanDataType _ _) = TBool"
| "data_type (ListDataType _ _) = TList"
| "data_type (DictDataType _ _) = TDict"
| "data_type (AnyDataType _) = TObject"
| "data_type (SecretDataType _) = TObject"
| "data_type (StrongPasswordDataType _ _) = TObject"
| "data_type (EmailDataType _) = TStr"

fun datatype_name :: "descriptor \<Rightarrow> string" where
  "datatype_name (StringDataType _) = ''string''"
| "datatype_name (IntegerDataType _ _ _) = ''integer''"
| "datatype_name (PositiveIntegerDataType _ _) = ''integer''"
| "datatype_name (NegativeIntegerDataType _ _) = ''integer''"
| "datatype_name (FloatDataType _ _ _ _) = ''float''"
| "datatype_name (BooleanDataType _ _) = ''boolean''"
| "datatype_name (ListDataType _ _) = ''list''"
| "datatype_name (DictDataType _ _) = ''dictionary''"
| "datatype_name (AnyDataType _) = ''any''"
| "datatype_name (SecretDataType _) = ''string''"
| "datatype_name (StrongPasswordDataType _ _) = ''string''"
| "datatype_name (EmailDataType _) = ''string''"

fun mask_value :: "descriptor \<Rightarrow> bool" where
  "mask_value (SecretDataType _) = True"
| "mask_value (StrongPasswordDataType _ _) = True"
| "mask_value _ = False"

fun user_validator :: "descriptor \<Rightarrow> user_check" where
  "user_validator (StringDataType uv) = uv"
| "user_validator (IntegerDataType uv _ _) = uv"
| "user_validator (PositiveIntegerDataType uv _) = uv"
| "user_validator (NegativeIntegerDataType uv _) = uv"
| "user_validator (FloatDataType uv _ _ _) = uv"
| "user_validator (BooleanDataType uv _) = uv"
| "user_validator (ListDataType uv _) = uv"
| "user_validator (DictDataType uv _) = uv"
| "user_validator (AnyDataType uv) = uv"
| "user_validator (SecretDataType uv) = uv"
| "user_validator (StrongPasswordDataType uv _) = uv"
| "user_validator (EmailDataType uv) = uv"

subsection \<open>The empty-value precheck\<close>

text \<open>
  \<open>precheck_empty_value\<close> raises when the descriptor has no attribute \<open>value\<close>
  (\<open>None\<close> below) or when \<open>self.value == "NOT_SET"\<close> is true.

  \<open>str_buffer\<close> is the text a \<open>str\<close> instance holds itself. An immutable-form proxy
  is built by \<open>SecureValue(value)\<close>, so it holds the text of a plain original, and the
  display of an original that is a proxy; a mutable-form proxy is built by
  \<open>SecureValue.__new__(SecureValue)\<close> and holds the empty text.
  \<open>builtin_eq_NOT_SET v\<close> is the \<open>__eq__\<close> of the built-in type on \<open>"NOT_SET"\<close>: the
  comparison of the texts for a \<open>str\<close> instance, \<open>NotImplemented\<close> for any other.
  \<open>eq_method_NOT_SET v\<close> is \<open>v.__eq__("NOT_SET")\<close>: that comparison, or the forwarding
  wrapper, which calls it on the original and raises when it wraps a wrapper.
\<close>

definition NOT_SET :: string where
  "NOT_SET = ''NOT_SET''"

fun str_buffer :: "pyval \<Rightarrow> string option" where
  "str_buffer (PStr s) = Some s"
| "str_buffer (SecureImm v) =
     (if TStr \<in> set (mro v) then (case v of PStr s \<Rightarrow> Some s | _ \<Rightarrow> Some redaction_marker) else None)"
| "str_buffer (SecureMut _ _ v) = (if TStr \<in> set (mro v) then Some [] else None)"
| "str_buffer _ = None"

definition builtin_eq_NOT_SET :: "pyval \<Rightarrow> pyval" where
  "builtin_eq_NOT_SET v =
     (case str_buffer v of Some s \<Rightarrow> PBool (s = NOT_SET) | None \<Rightarrow> PNotImplemented)"

definition eq_method_NOT_SET :: "pyval \<Rightarrow> pyval result" where
  "eq_method_NOT_SET v =
     (case inherited_wrapper v of
        None \<Rightarrow> Inr (builtin_eq_NOT_SET v)
      | Some (ic, ims) \<Rightarrow>
          if wraps_wrapper v then Inl missing_wrapped
          else wrapped_result ic ims ''__eq__'' v [PStr NOT_SET]
                 (builtin_eq_NOT_SET (forwarded_original v)))"

text \<open>
  The truth value the \<open>if\<close> sees. When the method answers \<open>NotImplemented\<close> the
  reflected \<open>str.__eq__\<close> compares the text held by a \<open>str\<close> instance, and otherwise
  the comparison falls back to identity, which is false. A result that is not a plain
  boolean is a mutable-form proxy of a boolean: an \<open>int\<close> instance created without
  an argument, hence zero and false (\<open>__bool__\<close> is not forwarded for a boolean).
\<close>

fun truth_of_comparison :: "pyval \<Rightarrow> bool" where
  "truth_of_comparison (PBool b) = b"
| "truth_of_comparison _ = False"

definition value_is_NOT_SET :: "pyval \<Rightarrow> bool result" where
  "value_is_NOT_SET v =
     bind_result (eq_method_NOT_SET v)
       (\<lambda>r. if r = PNotImplemented then Inr (str_buffer v = Some NOT_SET)
            else Inr (truth_of_comparison r))"

definition precheck_empty_value :: "pyval option \<Rightarrow> unit result" where
  "precheck_empty_value attr =
     (case attr of
        None \<Rightarrow> Inl (Raised ValueError ''Value not set.'' [])
      | Some v \<Rightarrow>
          bind_result (value_is_NOT_SET v)
            (\<lambda>b. if b then Inl (Raised ValueError ''Value not set.'' []) else Inr ()))"

subsection \<open>Conversion\<close>

text \<open>\<open>int(x)\<close> and \<open>float(x)\<close> for an argument that is not a masking proxy; the
  callers hand a proxy to the runtime.\<close>

definition py_int :: "runtime \<Rightarrow> pyval \<Rightarrow> int result" where
  "py_int rt v =
     (case v of
        PBool b \<Rightarrow> Inr (if b then 1 else 0)
      | PInt i \<Rightarrow> Inr i
      | PFloat f \<Rightarrow> int_of_float f
      | PStr s \<Rightarrow> py_int_str (int_max_str_digits rt) s
      | _ \<Rightarrow> Inl (Raised TypeError
               ''int() argument must be a string, a bytes-like object or a real number, not {type}''
               [PStr (class_name v)]))"

definition py_float :: "runtime \<Rightarrow> pyval \<Rightarrow> pyfloat result" where
  "py_float rt v =
     (case v of
        PBool b \<Rightarrow> Inr (Finite (if b then 1 else 0))
      | PInt i \<Rightarrow> float_of_int i
      | PFloat f \<Rightarrow> Inr f
      | PStr s \<Rightarrow>
          (case int_literal s of
             Some i \<Rightarrow> Inr (float_of_int_text i)
           | None \<Rightarrow>
               (case float_of_text rt s of
                  None \<Rightarrow> Inl (Raised ValueError ''could not convert string to float: {value!r}'' [v])
                | Some f \<Rightarrow> Inr f))
      | _ \<Rightarrow> Inl (Raised TypeError
               ''float() argument must be a string or a real number, not {type}''
               [PStr (class_name v)]))"

definition IntegerDataType_convert_type :: "runtime \<Rightarrow> bool \<Rightarrow> pyval \<Rightarrow> pyval result" where
  "IntegerDataType_convert_type rt support_boolean v =
     (if py_isinstance v TInt \<and> \<not> (py_isinstance v TBool \<and> \<not> support_boolean)
      then bind_result (py_int rt v) (\<lambda>i. Inr (PInt i))
      else
        bind_result (py_int rt v) (\<lambda>int_value.
        bind_result (py_float rt v) (\<lambda>float_value.
          if int_ne_float int_value float_value \<or> class_of v \<notin> set [TStr, TFloat]
          then Inl (Raised ValueError
                 ''Value {self.value} must be an integer not of type float or boolean.'' [v])
          else Inr (PInt int_value))))"

definition FloatDataType_convert_type :: "runtime \<Rightarrow> bool \<Rightarrow> bool \<Rightarrow> pyval \<Rightarrow> pyval result" where
  "FloatDataType_convert_type rt support_inf support_boolean v =
     (if py_isinstance v TFloat \<and> \<not> (py_isinstance v TBool \<and> \<not> support_boolean) then Inr v
      else if \<not> support_inf \<and>
              (case v of PStr s \<Rightarrow> py_strip (py_lower s) \<in> set [''inf'', ''-inf''] | _ \<Rightarrow> False)
      then Inl (Raised ValueError ''Value {self.value} must be a finite float.'' [v])
      else if \<not> support_boolean \<and> py_isinstance v TBool
      then Inl (Raised ValueError ''Value {self.value} must be a float and not a boolean.'' [v])
      else bind_result (py_float rt v) (\<lambda>f. Inr (PFloat f)))"

definition true_values :: "string list" where
  "true_values = [''true'', ''1'', ''yes'', ''y'']"

definition false_values :: "string list" where
  "false_values = [''false'', ''0'', ''no'', ''n'']"

definition boolean_err_msg :: "pyval \<Rightarrow> error" where
  "boolean_err_msg v =
     Raised ValueError
       ''Value {self.value} must be in a string format or boolean. Valid values are: true, 1, yes, y, false, 0, no, n.''
       [v]"

definition BooleanDataType_convert_type :: "pyval \<Rightarrow> pyval result" where
  "BooleanDataType_convert_type v =
     (if py_isinstance v TBool then Inr v
      else case v of
             PInt i \<Rightarrow>
               if i = 0 \<or> i = 1 then Inr (PBool (i \<noteq> 0))
               else Inl (Raised ValueError
                      ''Value {self.value} as an interger is not supported for boolean conversion.'' [v])
           | PStr s \<Rightarrow>
               if py_lower (py_strip s) \<in> set true_values then Inr (PBool True)
               else if py_lower (py_strip s) \<in> set false_values then Inr (PBool False)
               else Inl (boolean_err_msg v)
           | _ \<Rightarrow> Inl (boolean_err_msg v))"

definition ListDataType_convert_type :: "runtime \<Rightarrow> pyval \<Rightarrow> pyval result" where
  "ListDataType_convert_type rt v =
     (if py_isinstance v TList then Inr v
      else case v of
             PStr s \<Rightarrow>
               (case json_loads rt s of
                  None \<Rightarrow> Inl (Raised ValueError ''Value {self.value} is not a valid list in JSON format.'' [v])
                | Some j \<Rightarrow> Inr j)
           | _ \<Rightarrow> Inr v)"

definition DictDataType_convert_type :: "runtime \<Rightarrow> pyval \<Rightarrow> pyval result" where
  "DictDataType_convert_type rt v =
     (if py_isinstance v TDict then Inr v
      else case v of
             PStr s \<Rightarrow>
               (case json_loads rt s of
                  None \<Rightarrow> Inl (Raised ValueError ''Value {self.value} is not a valid dictionary in JSON format.'' [v])
                | Some j \<Rightarrow> Inr j)
           | _ \<Rightarrow> Inr v)"

text \<open>
  The convert stage of each class; \<open>convert=False\<close> replaces it by a function that does
  nothing, and the classes that inherit \<open>StandardDataType.convert_type\<close> have none.
\<close>

fun convert_type :: "runtime \<Rightarrow> descriptor \<Rightarrow> pyval \<Rightarrow> pyval result" where
  "convert_type rt (IntegerDataType uv conv sb) v =
     (if \<not> conv then Inr v
      else if is_proxy v then proxy_convert_type rt (IntegerDataType uv conv sb) v
      else IntegerDataType_convert_type rt sb v)"
| "convert_type rt (PositiveIntegerDataType uv conv) v =
     (if \<not> conv then Inr v
      else if is_proxy v then proxy_convert_type rt (PositiveIntegerDataType uv conv) v
      else IntegerDataType_convert_type rt False v)"
| "convert_type rt (NegativeIntegerDataType uv conv) v =
     (if \<not> conv then Inr v
      else if is_proxy v then proxy_convert_type rt (NegativeIntegerDataType uv conv) v
      else IntegerDataType_convert_type rt False v)"
| "convert_type rt (FloatDataType uv conv si sb) v =
     (if \<not> conv then Inr v
      else if is_proxy v then proxy_convert_type rt (FloatDataType uv conv si sb) v
      else FloatDataType_convert_type rt si sb v)"
| "convert_type rt (BooleanDataType uv conv) v =
     (if \<not> conv then Inr v
      else if is_proxy v then proxy_convert_type rt (BooleanDataType uv conv) v
      else BooleanDataType_convert_type v)"
| "convert_type rt (ListDataType uv conv) v =
     (if \<not> conv then Inr v
      else if is_proxy v then proxy_convert_type rt (ListDataType uv conv) v
      else ListDataType_convert_type rt v)"
| "convert_type rt (DictDataType uv conv) v =
     (if \<not> conv then Inr v
      else if is_proxy v then proxy_convert_type rt (DictDataType uv conv) v
      else DictDataType_convert_type rt v)"
| "convert_type rt _ v = Inr v"

subsection \<open>Type check\<close>

definition validate_type :: "descriptor \<Rightarrow> pyval \<Rightarrow> unit result" where
  "validate_type d v =
     (if \<not> py_isinstance v (data_type d)
      then Inl (Raised TypeError ''Data must be of type {self.datatype_name} for value {self.value}.''
                  [PStr (datatype_name d), v])
      else Inr ())"

subsection \<open>Semantic checks\<close>

text \<open>The patterns of \<open>StrongPasswordDataType._value_validator\<close> and
  \<open>EmailDataType\<close>.\<close>

definition rx_uppercase :: rx where
  "rx_uppercase = Atom (Set [(CHR ''A'', CHR ''Z'')])"

definition rx_lowercase :: rx where
  "rx_lowercase = Atom (Set [(CHR ''a'', CHR ''z'')])"

definition rx_digit :: rx where
  "rx_digit = Atom (Set [(CHR ''0'', CHR ''9'')])"

definition rx_common_patterns :: rx where
  "rx_common_patterns =
     alts (map lits [''1234'', ''abcd'', ''qwerty'', ''password'', ''abc@123'', ''password@123'', ''12345678''])"

definition rx_email :: rx where
  "rx_email =
     Cat (Many1 (NotSet [(CHR ''@'', CHR ''@'')]))
       (Cat (Lit (CHR ''@''))
          (Cat (Many1 (NotSet [(CHR ''@'', CHR ''@'')]))
             (Cat (Lit (CHR ''.'')) (Many1 (NotSet [(CHR ''@'', CHR ''@'')])))))"

definition domain_chars :: cset where
  "domain_chars =
     Set [(CHR ''a'', CHR ''z''), (CHR ''A'', CHR ''Z''), (CHR ''0'', CHR ''9''),
          (CHR ''.'', CHR ''.''), (CHR ''-'', CHR ''-'')]"

definition rx_domain :: rx where
  "rx_domain = Cat Bol (Cat (Many1 domain_chars) Eol)"

definition rx_url :: rx where
  "rx_url =
     Cat (lits ''http'') (Cat (Opt (Lit (CHR ''s''))) (Cat (lits ''://'')
       (Cat (Opt (Cat (lits ''www'') (Lit (CHR ''.'')))) (Many1 domain_chars))))"

text \<open>
  The special-character pattern is \<open>f"[{self.special_chars_list}]"\<close>. When the text has
  no backslash, bracket or hyphen and does not begin with a circumflex, the class is the
  set of its characters; any other text, and a list that was never joined, goes to the
  runtime.
\<close>

definition plain_class_text :: "string \<Rightarrow> bool" where
  "plain_class_text t =
     (case t of
        [] \<Rightarrow> False
      | c # _ \<Rightarrow> c \<noteq> CHR ''^'' \<and> list_all (\<lambda>x. x \<notin> set [CHR 0x5C, CHR ''['', CHR '']'', CHR ''-'']) t)"

definition special_search :: "runtime \<Rightarrow> special_list \<Rightarrow> string \<Rightarrow> bool result" where
  "special_search rt sl s =
     (case sl of
        SpecialStr t \<Rightarrow>
          if plain_class_text t then Inr (re_search False (Atom (Set (map (\<lambda>c. (c, c)) t))) s)
          else re_search_special rt sl s
      | SpecialList l \<Rightarrow> re_search_special rt sl s)"

definition py_len :: "pyval \<Rightarrow> nat result" where
  "py_len v =
     (case v of
        PStr s \<Rightarrow> Inr (length s)
      | PList xs \<Rightarrow> Inr (length xs)
      | PDict kvs \<Rightarrow> Inr (length kvs)
      | _ \<Rightarrow> Inl (Raised TypeError ''object of type {type} has no len()'' [PStr (class_name v)]))"

datatype password_rule =
  TooShort | TooLong | NoUppercase | NoLowercase | NoDigit | NoSpecial | CommonPattern

definition password_error :: "password_options \<Rightarrow> password_rule \<Rightarrow> error" where
  "password_error opts rule =
     (case rule of
        TooShort \<Rightarrow> Raised ValueError ''Password must be at least {self.min_length} characters long.''
                      [PInt (min_length opts)]
      | TooLong \<Rightarrow> Raised ValueError ''Password must be at most {self.max_length} characters long.''
                     [case max_length opts of None \<Rightarrow> PFloat PosInf | Some m \<Rightarrow> PInt m]
      | NoUppercase \<Rightarrow> Raised ValueError ''Password must contain at least one uppercase letter.'' []
      | NoLowercase \<Rightarrow> Raised ValueError ''Password must contain at least one lowercase letter.'' []
      | NoDigit \<Rightarrow> Raised ValueError ''Password must contain at least one digit.'' []
      | NoSpecial \<Rightarrow> Raised ValueError ''Password must contain at least one special character.'' []
      | CommonPattern \<Rightarrow> Raised ValueError ''Password should not contain common patterns or sequences.'' [])"

definition StrongPassword_value_validator ::
  "runtime \<Rightarrow> user_check \<Rightarrow> password_options \<Rightarrow> pyval \<Rightarrow> unit result" where
  "StrongPassword_value_validator rt uv opts v =
     (let password_value =
            (if class_name v = ''SecureValue''
             then (case original_data v of Some orig \<Rightarrow> orig | None \<Rightarrow> v) else v)
      in if is_proxy password_value
         then proxy_value_validator rt (StrongPasswordDataType uv opts) password_value
         else
           bind_result (py_len password_value) (\<lambda>n.
             if int n < min_length opts then Inl (password_error opts TooShort)
             else if (case max_length opts of None \<Rightarrow> False | Some m \<Rightarrow> int n > m)
             then Inl (password_error opts TooLong)
             else case password_value of
                    PStr s \<Rightarrow>
                      if \<not> re_search False rx_uppercase s then Inl (password_error opts NoUppercase)
                      else if \<not> re_search False rx_lowercase s then Inl (password_error opts NoLowercase)
                      else if \<not> re_search False rx_digit s then Inl (password_error opts NoDigit)
                      else
                        bind_result (special_search rt (special_chars_list opts) s) (\<lambda>found.
                          if \<not> found then Inl (password_error opts NoSpecial)
                          else if re_search True rx_common_patterns s
                          then Inl (password_error opts CommonPattern)
                          else Inr ())
                  | _ \<Rightarrow> Inl (Raised TypeError ''expected string or bytes-like object, got {type}''
                                 [PStr (class_name password_value)])))"

definition is_valid_domain_name :: "runtime \<Rightarrow> string \<Rightarrow> bool" where
  "is_valid_domain_name rt domain_name =
     (if \<not> re_match False rx_domain domain_name then False
      else
        let url = ''http://'' @ domain_name
        in if \<not> re_match False rx_url url then False else get_tld rt url)"

definition email_error :: "string \<Rightarrow> error" where
  "email_error s = Raised ValueError (''Value '{self.value}' is not a valid email address.'') [PStr s]"

definition Email_value_validator :: "runtime \<Rightarrow> string \<Rightarrow> unit result" where
  "Email_value_validator rt s =
     (if \<not> re_match False rx_email s then Inl (email_error s)
      else
        let domain_name = py_split (CHR ''@'') s
        in if domain_name \<noteq> [] \<and> length domain_name = 2
           then (if \<not> is_valid_domain_name rt (domain_name ! 1) then Inl (email_error s) else Inr ())
           else Inr ())"

text \<open>\<open>self.value <= 0\<close> and \<open>self.value >= 0\<close> on a number.\<close>

definition py_le_zero :: "pyval \<Rightarrow> bool result" where
  "py_le_zero v =
     (case v of
        PBool b \<Rightarrow> Inr (\<not> b)
      | PInt i \<Rightarrow> Inr (i \<le> 0)
      | PFloat f \<Rightarrow> Inr (case f of Finite q \<Rightarrow> q \<le> 0 | NegInf \<Rightarrow> True | _ \<Rightarrow> False)
      | _ \<Rightarrow> Inl (Raised TypeError ''<= not supported between instances of {type} and int''
                     [PStr (class_name v)]))"

definition py_ge_zero :: "pyval \<Rightarrow> bool result" where
  "py_ge_zero v =
     (case v of
        PBool b \<Rightarrow> Inr True
      | PInt i \<Rightarrow> Inr (i \<ge> 0)
      | PFloat f \<Rightarrow> Inr (case f of Finite q \<Rightarrow> q \<ge> 0 | PosInf \<Rightarrow> True | _ \<Rightarrow> False)
      | _ \<Rightarrow> Inl (Raised TypeError ''>= not supported between instances of {type} and int''
                     [PStr (class_name v)]))"

fun value_validator :: "runtime \<Rightarrow> descriptor \<Rightarrow> pyval \<Rightarrow> unit result" where
  "value_validator rt (StringDataType uv) v =
     (if \<not> py_isinstance v TStr then Inl (Raised ValueError ''Value {self.value} must be a string.'' [v])
      else Inr ())"
| "value_validator rt (IntegerDataType uv conv sb) v =
     (if \<not> py_isinstance v TInt then Inl (Raised ValueError ''Value {self.value} must be an integer.'' [v])
      else Inr ())"
| "value_validator rt (PositiveIntegerDataType uv conv) v =
     (if is_proxy v then proxy_value_validator rt (PositiveIntegerDataType uv conv) v
      else bind_result (py_le_zero v) (\<lambda>b.
             if b then Inl (Raised ValueError ''Value {self.value} must be a positive integer.'' [v])
             else Inr ()))"
| "value_validator rt (NegativeIntegerDataType uv conv) v =
     (if is_proxy v then proxy_value_validator rt (NegativeIntegerDataType uv conv) v
      else bind_result (py_ge_zero v) (\<lambda>b.
             if b then Inl (Raised ValueError ''Value {self.value} must be a negative integer.'' [v])
             else Inr ()))"
| "value_validator rt (StrongPasswordDataType uv opts) v = StrongPassword_value_validator rt uv opts v"
| "value_validator rt (EmailDataType uv) v =
     (if is_proxy v then proxy_value_validator rt (EmailDataType uv) v
      else case v of
             PStr s \<Rightarrow> Email_value_validator rt s
           | _ \<Rightarrow> Inl (Raised TypeError ''expected string or bytes-like object, got {type}''
                          [PStr (class_name v)]))"
| "value_validator rt _ v = Inr ()"

definition run_user_validator :: "descriptor \<Rightarrow> pyval \<Rightarrow> unit result" where
  "run_user_validator d v = (case user_validator d v of Some e \<Rightarrow> Inl e | None \<Rightarrow> Inr ())"

subsection \<open>The pipeline\<close>

text \<open>
  \<open>StandardDataType.__set_value__\<close>: the value is wrapped and assigned, then the
  precheck, the conversion, the type check, the semantic check and the caller's check run
  in this order; the first exception ends the call. The result is \<open>self.value\<close> after a
  call that returns.
\<close>

definition set_value :: "runtime \<Rightarrow> policy \<Rightarrow> descriptor \<Rightarrow> pyval \<Rightarrow> pyval result" where
  "set_value rt pol d raw =
     bind_result (convert_to_secure_value pol (mask_value d) raw) (\<lambda>v.
     bind_result (precheck_empty_value (Some v)) (\<lambda>_.
     bind_result (convert_type rt d v) (\<lambda>v'.
     bind_result (validate_type d v') (\<lambda>_.
     bind_result (value_validator rt d v') (\<lambda>_.
     bind_result (run_user_validator d v') (\<lambda>_. Inr v'))))))"

section \<open>\<open>EnvConfig\<close>, the collection of configuration cells\<close>

text \<open>
  \<open>EnvConfig\<close> is a \<open>dict\<close> subclass that mirrors its keys as instance attributes.
  The state is the dictionary itself (an association list in insertion order, keys being
  text), the mirrored attributes, and the attribute \<open>is_dict_initialized\<close>, which is
  \<open>None\<close> once \<open>delattr\<close> has removed it. \<open>cls\<close> lists the names that
  \<open>getattr\<close> resolves on the class (the methods of \<open>EnvConfig\<close>, \<open>dict\<close> and
  \<open>object\<close>). Every method returns its result, or the exception, with the state after
  the call.
\<close>

record EnvConfig =
  entries :: "(string \<times> pyval) list"
  attributes :: "(string \<times> pyval) list"
  is_dict_initialized :: "bool option"

definition has_attribute :: "string list \<Rightarrow> EnvConfig \<Rightarrow> string \<Rightarrow> bool" where
  "has_attribute cls cfg key =
     (map_of (attributes cfg) key \<noteq> None
      \<or> (key = ''is_dict_initialized'' \<and> is_dict_initialized cfg \<noteq> None)
      \<or> key \<in> set cls)"

text \<open>\<open>delattr(self, key)\<close> inside \<open>try ... except AttributeError: pass\<close>: only an
  instance attribute can be deleted.\<close>

definition try_delattr :: "EnvConfig \<Rightarrow> string \<Rightarrow> EnvConfig" where
  "try_delattr cfg key =
     (if map_of (attributes cfg) key \<noteq> None
      then cfg\<lparr>attributes := AList.delete key (attributes cfg)\<rparr>
      else if key = ''is_dict_initialized'' then cfg\<lparr>is_dict_initialized := None\<rparr>
      else cfg)"

fun cell_value :: "pyval \<Rightarrow> pyval option" where
  "cell_value (PConfigValue v) = Some v"
| "cell_value _ = None"

text \<open>
  \<open>__init__\<close> fills the dictionary, sets the flag to false, walks \<open>self.items()\<close>
  (which reads \<open>value.value\<close> of every entry, so an entry that is not a cell raises
  \<open>AttributeError\<close>), mirrors each key that \<open>getattr\<close> does not resolve, and sets the
  flag to true.
\<close>

fun mirror_items :: "string list \<Rightarrow> (string \<times> pyval) list \<Rightarrow> EnvConfig \<Rightarrow> EnvConfig result" where
  "mirror_items cls [] cfg = Inr cfg"
| "mirror_items cls ((key, value) # rest) cfg =
     (case cell_value value of
        None \<Rightarrow> Inl (Raised AttributeError ''object has no attribute value'' [value])
      | Some v \<Rightarrow>
          mirror_items cls rest
            (if has_attribute cls cfg key then cfg
             else cfg\<lparr>attributes := AList.update key v (attributes cfg)\<rparr>))"

definition EnvConfig_init :: "string list \<Rightarrow> (string \<times> pyval) list \<Rightarrow> EnvConfig result" where
  "EnvConfig_init cls d =
     bind_result
       (mirror_items cls d \<lparr>entries = d, attributes = [], is_dict_initialized = Some False\<rparr>)
       (\<lambda>cfg. Inr (cfg\<lparr>is_dict_initialized := Some True\<rparr>))"

fun unwrap_cell :: "pyval \<Rightarrow> pyval" where
  "unwrap_cell (PConfigValue v) = v"
| "unwrap_cell v = v"

definition immutable_error :: error where
  "immutable_error =
     Raised ImmutableError ''Cannot set or update values of the environment config once initalized.'' []"

definition EnvConfig_setitem ::
  "string list \<Rightarrow> EnvConfig \<Rightarrow> string \<Rightarrow> pyval \<Rightarrow> unit result \<times> EnvConfig" where
  "EnvConfig_setitem cls cfg key value =
     (case is_dict_initialized cfg of
        None \<Rightarrow> (Inl (Raised AttributeError ''object has no attribute is_dict_initialized'' []), cfg)
      | Some True \<Rightarrow> (Inl immutable_error, cfg)
      | Some False \<Rightarrow>
          if \<not> py_isinstance value TConfigValue
          then (Inl (Raised ValueError ''Value must be an instance of ConfigValue.'' []), cfg)
          else
            let cfg1 = cfg\<lparr>entries := AList.update key value (entries cfg)\<rparr>
            in if has_attribute cls cfg1 key then (Inr (), cfg1)
               else (Inr (), cfg1\<lparr>attributes := AList.update key PNone (attributes cfg1)\<rparr>))"

definition EnvConfig_get :: "EnvConfig \<Rightarrow> string \<Rightarrow> pyval \<Rightarrow> pyval result" where
  "EnvConfig_get cfg key dflt =
     (case map_of (entries cfg) key of
        None \<Rightarrow> Inr (unwrap_cell dflt)
      | Some value \<Rightarrow> Inr (unwrap_cell value))"

definition EnvConfig_getitem :: "EnvConfig \<Rightarrow> string \<Rightarrow> pyval result" where
  "EnvConfig_getitem cfg key =
     (case map_of (entries cfg) key of
        None \<Rightarrow> Inl (Raised KeyError ''{key}'' [PStr key])
      | Some value \<Rightarrow> Inr (unwrap_cell value))"

definition EnvConfig_keys :: "EnvConfig \<Rightarrow> (string list) result" where
  "EnvConfig_keys cfg = Inr (map fst (entries cfg))"

definition EnvConfig_delitem :: "EnvConfig \<Rightarrow> string \<Rightarrow> unit result \<times> EnvConfig" where
  "EnvConfig_delitem cfg key =
     (case map_of (entries cfg) key of
        None \<Rightarrow> (Inl (Raised KeyError ''{key}'' [PStr key]), cfg)
      | Some _ \<Rightarrow> (Inr (), try_delattr (cfg\<lparr>entries := AList.delete key (entries cfg)\<rparr>) key))"

definition EnvConfig_pop :: "EnvConfig \<Rightarrow> string \<Rightarrow> pyval \<Rightarrow> pyval result \<times> EnvConfig" where
  "EnvConfig_pop cfg key dflt =
     (let value = (case map_of (entries cfg) key of None \<Rightarrow> dflt | Some x \<Rightarrow> x)
      in (Inr value, try_delattr (cfg\<lparr>entries := AList.delete key (entries cfg)\<rparr>) key))"

definition EnvConfig_popitem :: "EnvConfig \<Rightarrow> (string \<times> pyval) result \<times> EnvConfig" where
  "EnvConfig_popitem cfg =
     (if entries cfg = []
      then (Inl (Raised KeyError ''popitem(): dictionary is empty'' []), cfg)
      else
        let (key, value) = last (entries cfg)
        in (Inr (key, value), try_delattr (cfg\<lparr>entries := butlast (entries cfg)\<rparr>) key))"

section \<open>Definitions for the properties\<close>

subsection \<open>Sample inputs\<close>

text \<open>A runtime for evaluating the model on concrete inputs: every domain has a known
  top-level domain, no text is JSON or a float, the limit on digits is the default, and
  proxies pass through.\<close>

definition sample_runtime :: runtime where
  "sample_runtime =
     \<lparr>get_tld = (\<lambda>_. True), json_loads = (\<lambda>_. None), float_of_text = (\<lambda>_. None),
      int_max_str_digits = 4300, re_search_special = (\<lambda>_ _. Inr False), proxy_convert_type = (\<lambda>_ v. Inr v),
      proxy_value_validator = (\<lambda>_ _. Inr ())\<rparr>"

definition masked_mutable :: policy where
  "masked_mutable = \<lparr>show_secured_values = False, make_secured_values_mutable = True\<rparr>"

definition masked_immutable :: policy where
  "masked_immutable = \<lparr>show_secured_values = False, make_secured_values_mutable = False\<rparr>"

definition revealed :: policy where
  "revealed = \<lparr>show_secured_values = True, make_secured_values_mutable = True\<rparr>"

subsection \<open>Invariants and measures\<close>


text \<open>A collection is finalized while its attribute \<open>is_dict_initialized\<close> is true, which
  is how \<open>EnvConfig.__init__\<close> leaves it, and every entry is a configuration cell.\<close>

definition finalized :: "EnvConfig \<Rightarrow> bool" where
  "finalized cfg =
     (is_dict_initialized cfg = Some True \<and> list_all (\<lambda>kv. cell_value (snd kv) \<noteq> None) (entries cfg))"

text \<open>A collection as \<open>EnvConfig.__init__\<close> leaves it, with one cell.\<close>

definition sample_config :: EnvConfig where
  "sample_config =
     \<lparr>entries = [(''db_host'', PConfigValue (PStr ''localhost''))],
      attributes = [(''db_host'', PStr ''localhost'')],
      is_dict_initialized = Some True\<rparr>"

subsection \<open>The password rules, stated on the characters\<close>

text \<open>
  The seven rules of the strong-password check as properties of the password text, in the
  order of the specification, for a special-character set given as plain text. A common
  pattern is matched when its lower-case form is a contiguous part of the lower-case
  password.
\<close>

definition has_char_between :: "char \<Rightarrow> char \<Rightarrow> string \<Rightarrow> bool" where
  "has_char_between lo hi s =
     list_ex (\<lambda>c. (of_char lo :: nat) \<le> of_char c \<and> (of_char c :: nat) \<le> of_char hi) s"

definition common_patterns :: "string list" where
  "common_patterns =
     [''1234'', ''abcd'', ''qwerty'', ''password'', ''abc@123'', ''password@123'', ''12345678'']"

fun special_text :: "special_list \<Rightarrow> string" where
  "special_text (SpecialStr t) = t"
| "special_text (SpecialList l) = concat l"

fun violates :: "password_options \<Rightarrow> string \<Rightarrow> password_rule \<Rightarrow> bool" where
  "violates opts s TooShort = (int (length s) < min_length opts)"
| "violates opts s TooLong = (case max_length opts of None \<Rightarrow> False | Some m \<Rightarrow> int (length s) > m)"
| "violates opts s NoUppercase = (\<not> has_char_between (CHR ''A'') (CHR ''Z'') s)"
| "violates opts s NoLowercase = (\<not> has_char_between (CHR ''a'') (CHR ''z'') s)"
| "violates opts s NoDigit = (\<not> has_char_between (CHR ''0'') (CHR ''9'') s)"
| "violates opts s NoSpecial = (\<not> list_ex (\<lambda>c. c \<in> set (special_text (special_chars_list opts))) s)"
| "violates opts s CommonPattern = list_ex (\<lambda>p. sublist (py_lower p) (py_lower s)) common_patterns"

definition rule_order :: "password_rule list" where
  "rule_order = [TooShort, TooLong, NoUppercase, NoLowercase, NoDigit, NoSpecial, CommonPattern]"

definition first_violation :: "password_options \<Rightarrow> string \<Rightarrow> password_rule option" where
  "first_violation opts s = find (violates opts s) rule_order"

fun error_message :: "error \<Rightarrow> string" where
  "error_message (Raised _ msg _) = msg"

text \<open>
  The integers a binary64 float represents exactly: those of at most 53 bits, and the
  longer ones below \<open>2 ^ 1024\<close> whose bits after the leading 53 are all zero.
\<close>

definition exactly_representable :: "int \<Rightarrow> bool" where
  "exactly_representable n =
     (\<bar>n\<bar> < 2 ^ 53 \<or> (\<bar>n\<bar> mod 2 ^ nat (bitlen \<bar>n\<bar> - 53) = 0 \<and> \<bar>n\<bar> < 2 ^ 1024))"

text \<open>The number a run of decimal digits denotes, continuing from \<open>acc\<close>.\<close>

definition digits_value :: "int \<Rightarrow> string \<Rightarrow> int" where
  "digits_value acc xs = foldl (\<lambda>a c. 10 * a + digit_val c) acc xs"

section \<open>Properties\<close>

lemma bind_result_simps:
  "bind_result (Inl e) f = Inl e"
  "bind_result (Inr x) f = f x"
  by (simp_all add: bind_result_def)

lemma dir_loop_plain [simp]: "\<not> is_proxy v \<Longrightarrow> dir_loop v = Inr ()"
  by (cases v) (simp_all add: dir_loop_def)

lemma SecureValue_call_plain [simp]: "\<not> is_proxy v \<Longrightarrow> SecureValue_call v = Inr (SecureImm v)"
  by (cases v) (simp_all add: SecureValue_call_def)

lemma copy_properties_plain [simp]: "\<not> is_proxy v \<Longrightarrow> copy_properties v = Inr ()"
  by (cases v) (simp_all add: copy_properties_def)

lemma builtin_eq_NOT_SET_simps [simp]:
  "builtin_eq_NOT_SET (PStr s) = PBool (s = NOT_SET)"
  "builtin_eq_NOT_SET PNone = PNotImplemented"
  "builtin_eq_NOT_SET (PBool b) = PNotImplemented"
  "builtin_eq_NOT_SET (PInt i) = PNotImplemented"
  "builtin_eq_NOT_SET (PFloat f) = PNotImplemented"
  "builtin_eq_NOT_SET (PList xs) = PNotImplemented"
  "builtin_eq_NOT_SET (PDict kvs) = PNotImplemented"
  "builtin_eq_NOT_SET (PFunc n) = PNotImplemented"
  "builtin_eq_NOT_SET PNotImplemented = PNotImplemented"
  "builtin_eq_NOT_SET (PConfigValue v) = PNotImplemented"
  "builtin_eq_NOT_SET (SecureImm v) =
     (case str_buffer (SecureImm v) of Some s \<Rightarrow> PBool (s = NOT_SET) | None \<Rightarrow> PNotImplemented)"
  "builtin_eq_NOT_SET (SecureMut ic ims v) =
     (case str_buffer (SecureMut ic ims v) of Some s \<Rightarrow> PBool (s = NOT_SET) | None \<Rightarrow> PNotImplemented)"
  by (simp_all add: builtin_eq_NOT_SET_def)

lemma eq_method_NOT_SET_plain [simp]:
  "\<not> is_proxy v \<Longrightarrow> eq_method_NOT_SET v = Inr (builtin_eq_NOT_SET v)"
  by (cases v) (simp_all add: eq_method_NOT_SET_def)

lemma eq_method_NOT_SET_proxy [simp]:
  "eq_method_NOT_SET (SecureImm v) =
     (case inherited_wrapper v of
        None \<Rightarrow> Inr (builtin_eq_NOT_SET (SecureImm v))
      | Some (ic, ims) \<Rightarrow>
          if wraps_wrapper v then Inl missing_wrapped
          else wrapped_result ic ims ''__eq__'' (SecureImm v) [PStr NOT_SET]
                 (builtin_eq_NOT_SET (forwarded_original v)))"
  "eq_method_NOT_SET (SecureMut ic ims v) =
     (if inherited_wrapper v \<noteq> None then Inl missing_wrapped
      else wrapped_result ic ims ''__eq__'' (SecureMut ic ims v) [PStr NOT_SET]
             (builtin_eq_NOT_SET v))"
  by (simp_all add: eq_method_NOT_SET_def split: option.splits)

subsection \<open>Subclassing the configuration cell type\<close>













subsection \<open>Masking and the reveal switch\<close>

lemma CreateSecureValue_cases:
  assumes "CreateSecureValue v m ic ims = Inr r"
  shows "r = v \<or> r = SecureImm v \<or> (\<exists>ims'. r = SecureMut ic ims' v)"
  using assms
  by (auto simp: CreateSecureValue_def SecureValue_call_def bind_result_def Let_def
      split: if_splits sum.splits)

lemma CreateSecureValue_wrappable:
  assumes "class_of v \<in> set [TStr, TInt, TFloat, TBool, TList, TDict]"
  shows "CreateSecureValue v m (Some TConfigValue) [] =
           Inr (if m then SecureMut (Some TConfigValue) [''__len__''] v else SecureImm v)"
  using assms
  by (cases v)
     (auto simp: CreateSecureValue_def bind_result_def Let_def is_ignored_def py_isinstance_def
        check_inheritable_class_def copy_properties_def)

text \<open>
  Claim C6. For a secret-flagged value: with the reveal switch on, the value is returned
  unchanged and no proxy is created; with the switch off, whenever the result is a new
  object it is a proxy whose string conversion and representation are \<open>"******"\<close> and
  whose reveal accessor returns the original value, and such a proxy is created for every
  text, integer, float, boolean, list and dictionary.
\<close>

theorem masking_reveal_policy:
  "(show_secured_values pol \<longrightarrow> convert_to_secure_value pol True v = Inr v)
   \<and> (\<not> show_secured_values pol \<longrightarrow> convert_to_secure_value pol True v = Inr r \<longrightarrow> r \<noteq> v \<longrightarrow>
        is_proxy r \<and> py_str builtin r = ''******'' \<and> py_repr builtin r = ''******''
        \<and> unmasked r = Inr v)
   \<and> (\<not> show_secured_values pol \<longrightarrow> class_of v \<in> set [TStr, TInt, TFloat, TBool, TList, TDict] \<longrightarrow>
        (\<exists>p. convert_to_secure_value pol True v = Inr p \<and> is_proxy p \<and> unmasked p = Inr v))"
proof (intro conjI impI)
  assume "show_secured_values pol"
  then show "convert_to_secure_value pol True v = Inr v"
    by (simp add: convert_to_secure_value_def)
next
  assume h: "\<not> show_secured_values pol" "convert_to_secure_value pol True v = Inr r" "r \<noteq> v"
  then have "CreateSecureValue v (make_secured_values_mutable pol) (Some TConfigValue) [] = Inr r"
    by (simp add: convert_to_secure_value_def)
  from CreateSecureValue_cases [OF this] h(3)
  have r: "r = SecureImm v \<or> (\<exists>ims'. r = SecureMut (Some TConfigValue) ims' v)" by blast
  from r show "is_proxy r" by auto
  from r show "py_str builtin r = ''******''" by (auto simp: py_str_def redaction_marker_def)
  from r show "py_repr builtin r = ''******''" by (auto simp: py_repr_def redaction_marker_def)
  from r show "unmasked r = Inr v" by (auto simp: unmasked_def)
next
  assume "\<not> show_secured_values pol" and c: "class_of v \<in> set [TStr, TInt, TFloat, TBool, TList, TDict]"
  then show "\<exists>p. convert_to_secure_value pol True v = Inr p \<and> is_proxy p \<and> unmasked p = Inr v"
    using CreateSecureValue_wrappable [OF c]
    by (simp add: convert_to_secure_value_def unmasked_def)
qed

theorem masking_reveal_policy_witness:
  "convert_to_secure_value revealed True (PInt 2) = Inr (PInt 2)
   \<and> convert_to_secure_value masked_mutable True (PInt 2) = Inr (SecureMut (Some TConfigValue) [''__len__''] (PInt 2))
   \<and> py_str (\<lambda>_. ''2'') (SecureMut (Some TConfigValue) [''__len__''] (PInt 2)) = ''******''
   \<and> py_repr (\<lambda>_. ''2'') (SecureMut (Some TConfigValue) [''__len__''] (PInt 2)) = ''******''
   \<and> unmasked (SecureMut (Some TConfigValue) [''__len__''] (PInt 2)) = Inr (PInt 2)"
proof -
  have c: "convert_to_secure_value masked_mutable True (PInt 2) =
             Inr (SecureMut (Some TConfigValue) [''__len__''] (PInt 2))"
    by (simp add: convert_to_secure_value_def masked_mutable_def CreateSecureValue_def
        bind_result_def is_ignored_def py_isinstance_def check_inheritable_class_def)
  have s: "show_secured_values revealed" "\<not> show_secured_values masked_mutable"
    by (simp_all add: revealed_def masked_mutable_def)
  from masking_reveal_policy [of revealed "PInt 2"] s(1)
  have a: "convert_to_secure_value revealed True (PInt 2) = Inr (PInt 2)" by blast
  from masking_reveal_policy [of masked_mutable "PInt 2"
      "SecureMut (Some TConfigValue) [''__len__''] (PInt 2)" "\<lambda>_. ''2''"] s(2) c
  show ?thesis using a by simp
qed

subsection \<open>Comparisons through the forwarding wrapper\<close>

text \<open>
  Claim C7, as amended. When the forwarded member returns \<open>NotImplemented\<close>, the member
  is not in the ignored-member list and \<open>NotImplemented\<close> is not an instance of the
  ignored class, then an ordering comparison raises \<open>TypeError\<close> with the operator's
  symbol, the class name of the proxy and the class name of the other operand, and an
  equality comparison returns \<open>False\<close>.
\<close>

theorem wrapped_comparison_not_supported:
  assumes "original_data self = Some orig"
    and "call orig name (value # rest) = Inr PNotImplemented"
    and "name \<notin> set ignored_methods"
    and "\<not> is_ignored ignored_class PNotImplemented"
  shows "(name \<in> set compariosn_methods_with_type_error \<longrightarrow>
            (\<exists>symbol. map_of comparion_method_symbol name = Some symbol \<and>
               wrapped call ignored_class ignored_methods name self (value # rest) =
                 Inl (Raised TypeError
                   (CHR 0x27 # ''{symbol}' not supported between instances of '{self.__class__.__name__}' and '{value.__class__.__name__}'' @ [CHR 0x27])
                   [PStr symbol, PStr (class_name self), PStr (class_name value)])))
       \<and> (name \<in> set compariosn_methods_with_return \<longrightarrow>
            wrapped call ignored_class ignored_methods name self (value # rest) = Inr (PBool False))"
  using assms
  by (auto simp: wrapped_def wrapped_result_def bind_result_def py_isinstance_def
      compariosn_methods_with_type_error_def compariosn_methods_with_return_def
      comparion_method_symbol_def)

theorem wrapped_comparison_not_supported_witness:
  "wrapped (\<lambda>_ _ _. Inr PNotImplemented) (Some TConfigValue) [''__len__''] ''__lt__''
       (SecureMut (Some TConfigValue) [''__len__''] (PInt 5)) [PStr ''a''] =
     Inl (Raised TypeError
       (CHR 0x27 # ''{symbol}' not supported between instances of '{self.__class__.__name__}' and '{value.__class__.__name__}'' @ [CHR 0x27])
       [PStr ''<'', PStr ''SecureValue'', PStr ''str''])
   \<and> wrapped (\<lambda>_ _ _. Inr PNotImplemented) (Some TConfigValue) [''__len__''] ''__eq__''
       (SecureMut (Some TConfigValue) [''__len__''] (PInt 5)) [PStr ''a''] = Inr (PBool False)"
proof -
  let ?self = "SecureMut (Some TConfigValue) [''__len__''] (PInt 5)"
  let ?call = "\<lambda>(_::pyval) (_::string) (_::pyval list). (Inr PNotImplemented :: pyval result)"
  have o: "original_data ?self = Some (PInt 5)" by simp
  have i: "\<not> is_ignored (Some TConfigValue) PNotImplemented"
    by (simp add: is_ignored_def py_isinstance_def)
  have lt: "''__lt__'' \<notin> set [''__len__'']" and eq: "''__eq__'' \<notin> set [''__len__'']" by simp_all
  have c: "?call (PInt 5) n [PStr ''a''] = Inr PNotImplemented" for n by simp
  from wrapped_comparison_not_supported [of ?self "PInt 5" ?call "''__lt__''" "PStr ''a''" "[]",
      OF o c lt i]
    wrapped_comparison_not_supported [of ?self "PInt 5" ?call "''__eq__''" "PStr ''a''" "[]",
      OF o c eq i]
  show ?thesis
    by (simp add: compariosn_methods_with_type_error_def compariosn_methods_with_return_def
        comparion_method_symbol_def class_name_def)
qed

theorem wrapped_comparison_counterexample:
  "CreateSecureValue (PInt 5) True None [''__lt__'', ''__eq__''] =
     Inr (SecureMut None [''__lt__'', ''__eq__''] (PInt 5))
   \<and> wrapped (\<lambda>_ _ _. Inr PNotImplemented) None [''__lt__'', ''__eq__''] ''__lt__''
       (SecureMut None [''__lt__'', ''__eq__''] (PInt 5)) [PStr ''a''] = Inr PNotImplemented
   \<and> wrapped (\<lambda>_ _ _. Inr PNotImplemented) None [''__lt__'', ''__eq__''] ''__eq__''
       (SecureMut None [''__lt__'', ''__eq__''] (PInt 5)) [PStr ''a''] = Inr PNotImplemented"
  by (simp add: CreateSecureValue_def wrapped_def wrapped_result_def bind_result_def
      is_ignored_def py_isinstance_def check_inheritable_class_def)

subsection \<open>Email addresses\<close>

text \<open>
  Claim C1 at the input \<open>"a@b.c@d"\<close>, which has two \<open>@\<close>. \<open>re.match\<close> accepts the
  prefix \<open>"a@b.c"\<close> and does not look at the rest; \<open>split("@")\<close> gives three parts, so
  the domain is not validated; the value is accepted whatever the lookup table holds.
\<close>

theorem email_two_at_signs_accepted:
  "re_match False rx_email ''a@b.c@d''
   \<and> py_split (CHR ''@'') ''a@b.c@d'' = [''a'', ''b.c'', ''d'']
   \<and> Email_value_validator rt ''a@b.c@d'' = Inr ()
   \<and> set_value rt pol (EmailDataType no_user_validator) (PStr ''a@b.c@d'') = Inr (PStr ''a@b.c@d'')"
proof -
  have m: "re_match False rx_email ''a@b.c@d''"
    by (simp add: re_match_def rx_email_def in_ranges_def lit_match_def)
  have s: "py_split (CHR ''@'') ''a@b.c@d'' = [''a'', ''b.c'', ''d'']" by simp
  have v: "Email_value_validator rt ''a@b.c@d'' = Inr ()"
    using m s by (simp add: Email_value_validator_def Let_def)
  have p: "precheck_empty_value (Some (PStr ''a@b.c@d'')) = Inr ()"
    by (simp add: precheck_empty_value_def value_is_NOT_SET_def bind_result_def NOT_SET_def)
  have "set_value rt pol (EmailDataType no_user_validator) (PStr ''a@b.c@d'') = Inr (PStr ''a@b.c@d'')"
    using v p
    by (simp add: set_value_def convert_to_secure_value_def bind_result_def validate_type_def
        py_isinstance_def run_user_validator_def no_user_validator_def)
  with m s v show ?thesis by simp
qed

subsection \<open>Strong passwords\<close>

lemma password_error_toggles:
  "password_error (opts\<lparr>special_chars := a, numbers := b, uppercase := c, lowercase := d\<rparr>) rule =
     password_error opts rule"
  by (cases rule) (simp_all add: password_error_def)

text \<open>
  Claim C4. The check never reads the four toggles: on a password text its result is the
  same whatever they are. So at a descriptor built with \<open>special_chars=False\<close> and the
  password \<open>"Hello2World"\<close>, which has no special character, the check for a special
  character runs and fails although the toggle is off.
\<close>

theorem special_chars_toggle_ignored:
  "StrongPassword_value_validator rt uv
       (opts\<lparr>special_chars := a, numbers := b, uppercase := c, lowercase := d\<rparr>) (PStr s) =
     StrongPassword_value_validator rt uv opts (PStr s)
   \<and> special_chars (StrongPassword_options 8 None False True True True ArgNone) = False
   \<and> StrongPassword_value_validator rt uv (StrongPassword_options 8 None False True True True ArgNone)
        (PStr ''Hello2World'') =
      Inl (Raised ValueError ''Password must contain at least one special character.'' [])"
proof -
  have g: "StrongPassword_value_validator rt uv
       (opts\<lparr>special_chars := a, numbers := b, uppercase := c, lowercase := d\<rparr>) (PStr s) =
     StrongPassword_value_validator rt uv opts (PStr s)"
    by (simp add: StrongPassword_value_validator_def class_name_def password_error_toggles Let_def
        py_len_def bind_result_def cong: if_cong sum.case_cong)
  have e: "StrongPassword_value_validator rt uv (StrongPassword_options 8 None False True True True ArgNone)
        (PStr ''Hello2World'') =
      Inl (Raised ValueError ''Password must contain at least one special character.'' [])"
    by (simp add: StrongPassword_options_def StrongPassword_value_validator_def class_name_def
      py_len_def bind_result_def re_search_def rx_uppercase_def rx_lowercase_def rx_digit_def
      in_ranges_def special_search_def plain_class_text_def SPECIAL_CHARS_def password_error_def)
  from g e show ?thesis by (simp add: StrongPassword_options_def)
qed

subsection \<open>The empty-value precheck and the sentinel text\<close>

lemma precheck_plain:
  assumes "\<not> is_proxy v"
  shows "precheck_empty_value (Some v) =
           (if v = PStr ''NOT_SET'' then Inl (Raised ValueError ''Value not set.'' []) else Inr ())"
  using assms
  by (cases v) (auto simp: precheck_empty_value_def value_is_NOT_SET_def bind_result_def NOT_SET_def)

lemma precheck_immutable_proxy:
  assumes "\<not> is_proxy v"
  shows "precheck_empty_value (Some (SecureImm v)) =
           (if v = PStr ''NOT_SET'' then Inl (Raised ValueError ''Value not set.'' []) else Inr ())"
  using assms
  by (cases v) (auto simp: precheck_empty_value_def value_is_NOT_SET_def bind_result_def NOT_SET_def)

lemma precheck_mutable_proxy:
  assumes "\<not> is_proxy v"
  shows "precheck_empty_value (Some (SecureMut (Some TConfigValue) [''__len__''] v)) = Inr ()"
  using assms
  by (cases v)
     (auto simp: precheck_empty_value_def value_is_NOT_SET_def bind_result_def NOT_SET_def
        wrapped_result_def is_ignored_def py_isinstance_def compariosn_methods_with_return_def
        compariosn_methods_with_type_error_def CreateSecureValue_def check_inheritable_class_def)

lemma convert_to_secure_value_forms:
  assumes "convert_to_secure_value pol m v = Inr v'"
  shows "v' = v \<or> v' = SecureImm v \<or> v' = SecureMut (Some TConfigValue) [''__len__''] v"
  using assms
  by (auto simp: convert_to_secure_value_def CreateSecureValue_def SecureValue_call_def
      bind_result_def Let_def split: if_splits sum.splits)

text \<open>
  Claim C9. The precheck compares the assigned value with the text \<open>"NOT_SET"\<close>, and
  \<open>set_value\<close> on that text raises \<open>ValueError("Value not set.")\<close> for every
  descriptor that is not secret-flagged, and for a secret-flagged one when the reveal
  switch is on or the proxy is of the immutable form. For a secret-flagged descriptor
  with the reveal switch off and the mutable switch on the comparison is made on a
  mutable-form proxy, whose \<open>==\<close> answers with a proxy of \<open>True\<close> that is false: the
  precheck passes, and \<open>SecretDataType\<close> accepts \<open>"NOT_SET"\<close>.
\<close>

theorem NOT_SET_precheck_bypassed:
  "(\<not> (mask_value d \<and> \<not> show_secured_values pol \<and> make_secured_values_mutable pol) \<longrightarrow>
      set_value rt pol d (PStr ''NOT_SET'') = Inl (Raised ValueError ''Value not set.'' []))
   \<and> (mask_value d \<and> \<not> show_secured_values pol \<and> make_secured_values_mutable pol \<longrightarrow>
        convert_to_secure_value pol (mask_value d) (PStr ''NOT_SET'') =
          Inr (SecureMut (Some TConfigValue) [''__len__''] (PStr ''NOT_SET''))
        \<and> eq_method_NOT_SET (SecureMut (Some TConfigValue) [''__len__''] (PStr ''NOT_SET'')) =
            Inr (SecureMut (Some TConfigValue) [''__len__''] (PBool True))
        \<and> precheck_empty_value (Some (SecureMut (Some TConfigValue) [''__len__''] (PStr ''NOT_SET''))) =
            Inr ())
   \<and> (\<not> show_secured_values pol \<and> make_secured_values_mutable pol \<longrightarrow>
        set_value rt pol (SecretDataType no_user_validator) (PStr ''NOT_SET'') =
          Inr (SecureMut (Some TConfigValue) [''__len__''] (PStr ''NOT_SET'')))"
proof (intro conjI impI)
  assume h: "\<not> (mask_value d \<and> \<not> show_secured_values pol \<and> make_secured_values_mutable pol)"
  have "convert_to_secure_value pol (mask_value d) (PStr ''NOT_SET'') = Inr (PStr ''NOT_SET'')
        \<or> convert_to_secure_value pol (mask_value d) (PStr ''NOT_SET'') = Inr (SecureImm (PStr ''NOT_SET''))"
    using h
    by (auto simp: convert_to_secure_value_def CreateSecureValue_def bind_result_def
        is_ignored_def py_isinstance_def check_inheritable_class_def)
  then show "set_value rt pol d (PStr ''NOT_SET'') = Inl (Raised ValueError ''Value not set.'' [])"
    by (auto simp: set_value_def bind_result_simps precheck_plain precheck_immutable_proxy)
next
  assume "mask_value d \<and> \<not> show_secured_values pol \<and> make_secured_values_mutable pol"
  then show "convert_to_secure_value pol (mask_value d) (PStr ''NOT_SET'') =
          Inr (SecureMut (Some TConfigValue) [''__len__''] (PStr ''NOT_SET''))"
    by (simp add: convert_to_secure_value_def CreateSecureValue_def bind_result_def
        is_ignored_def py_isinstance_def check_inheritable_class_def)
next
  show "eq_method_NOT_SET (SecureMut (Some TConfigValue) [''__len__''] (PStr ''NOT_SET'')) =
            Inr (SecureMut (Some TConfigValue) [''__len__''] (PBool True))"
    by (simp add: NOT_SET_def bind_result_def wrapped_result_def is_ignored_def py_isinstance_def
        compariosn_methods_with_return_def compariosn_methods_with_type_error_def
        CreateSecureValue_def check_inheritable_class_def)
next
  show "precheck_empty_value (Some (SecureMut (Some TConfigValue) [''__len__''] (PStr ''NOT_SET''))) =
            Inr ()"
    by (simp add: precheck_mutable_proxy)
next
  assume p: "\<not> show_secured_values pol \<and> make_secured_values_mutable pol"
  then have c: "convert_to_secure_value pol True (PStr ''NOT_SET'') =
             Inr (SecureMut (Some TConfigValue) [''__len__''] (PStr ''NOT_SET''))"
    by (simp add: convert_to_secure_value_def CreateSecureValue_def
        bind_result_def is_ignored_def py_isinstance_def check_inheritable_class_def)
  show "set_value rt pol (SecretDataType no_user_validator) (PStr ''NOT_SET'') =
          Inr (SecureMut (Some TConfigValue) [''__len__''] (PStr ''NOT_SET''))"
    by (simp add: set_value_def c bind_result_simps precheck_mutable_proxy validate_type_def
        py_isinstance_def run_user_validator_def no_user_validator_def)
qed

theorem NOT_SET_precheck_bypassed_witness:
  "set_value sample_runtime masked_mutable (StringDataType no_user_validator) (PStr ''NOT_SET'') =
     Inl (Raised ValueError ''Value not set.'' [])
   \<and> set_value sample_runtime masked_immutable (SecretDataType no_user_validator) (PStr ''NOT_SET'') =
     Inl (Raised ValueError ''Value not set.'' [])
   \<and> set_value sample_runtime revealed (SecretDataType no_user_validator) (PStr ''NOT_SET'') =
     Inl (Raised ValueError ''Value not set.'' [])
   \<and> precheck_empty_value (Some (SecureMut (Some TConfigValue) [''__len__''] (PStr ''NOT_SET''))) = Inr ()
   \<and> set_value sample_runtime masked_mutable (SecretDataType no_user_validator) (PStr ''NOT_SET'') =
     Inr (SecureMut (Some TConfigValue) [''__len__''] (PStr ''NOT_SET''))"
proof -
  have a: "\<not> (mask_value (StringDataType no_user_validator) \<and> \<not> show_secured_values masked_mutable
             \<and> make_secured_values_mutable masked_mutable)"
    by simp
  have b: "\<not> (mask_value (SecretDataType no_user_validator) \<and> \<not> show_secured_values masked_immutable
             \<and> make_secured_values_mutable masked_immutable)"
    by (simp add: masked_immutable_def)
  have c: "\<not> (mask_value (SecretDataType no_user_validator) \<and> \<not> show_secured_values revealed
             \<and> make_secured_values_mutable revealed)"
    by (simp add: revealed_def)
  have d: "mask_value (SecretDataType no_user_validator) \<and> \<not> show_secured_values masked_mutable
             \<and> make_secured_values_mutable masked_mutable"
    by (simp add: masked_mutable_def)
  from NOT_SET_precheck_bypassed [of "StringDataType no_user_validator" masked_mutable sample_runtime]
    NOT_SET_precheck_bypassed [of "SecretDataType no_user_validator" masked_immutable sample_runtime]
    NOT_SET_precheck_bypassed [of "SecretDataType no_user_validator" revealed sample_runtime]
    NOT_SET_precheck_bypassed [of "SecretDataType no_user_validator" masked_mutable sample_runtime]
    a b c d
  show ?thesis by blast
qed

subsection \<open>The finalized collection\<close>

lemma mirror_items_keeps:
  "mirror_items cls d cfg = Inr cfg' \<Longrightarrow>
     entries cfg' = entries cfg \<and> is_dict_initialized cfg' = is_dict_initialized cfg"
proof (induction d arbitrary: cfg)
  case Nil
  then show ?case by simp
next
  case (Cons kv d)
  obtain k v where kv: "kv = (k, v)" by (cases kv)
  from Cons.prems obtain x where x: "cell_value v = Some x"
    by (auto simp: kv split: option.splits)
  let ?c = "if has_attribute cls cfg k then cfg
            else cfg\<lparr>attributes := AList.update k x (attributes cfg)\<rparr>"
  from Cons.prems have "mirror_items cls d ?c = Inr cfg'" by (simp add: kv x)
  from Cons.IH [OF this] show ?case by (simp split: if_splits)
qed

lemma mirror_items_cells:
  "mirror_items cls d cfg = Inr cfg' \<Longrightarrow> list_all (\<lambda>kv. cell_value (snd kv) \<noteq> None) d"
proof (induction d arbitrary: cfg)
  case Nil
  then show ?case by simp
next
  case (Cons kv d)
  obtain k v where kv: "kv = (k, v)" by (cases kv)
  from Cons.prems obtain x where x: "cell_value v = Some x"
    by (auto simp: kv split: option.splits)
  let ?c = "if has_attribute cls cfg k then cfg
            else cfg\<lparr>attributes := AList.update k x (attributes cfg)\<rparr>"
  from Cons.prems have "mirror_items cls d ?c = Inr cfg'" by (simp add: kv x)
  from Cons.IH [OF this] show ?case by (simp add: kv x)
qed

lemma EnvConfig_init_state:
  assumes "EnvConfig_init cls d = Inr cfg"
  shows "entries cfg = d \<and> finalized cfg"
proof -
  from assms obtain c where
    m: "mirror_items cls d \<lparr>entries = d, attributes = [], is_dict_initialized = Some False\<rparr> = Inr c"
    and c: "cfg = c\<lparr>is_dict_initialized := Some True\<rparr>"
    by (auto simp: EnvConfig_init_def bind_result_def split: sum.splits)
  from mirror_items_keeps [OF m] mirror_items_cells [OF m] c show ?thesis
    by (simp add: finalized_def)
qed

lemma cells_delete:
  "list_all (\<lambda>kv. cell_value (snd kv) \<noteq> None) xs \<Longrightarrow>
     list_all (\<lambda>kv. cell_value (snd kv) \<noteq> None) (AList.delete k xs)"
  by (induction xs) (auto simp: AList.delete_eq)

lemma finalized_try_delattr:
  assumes "finalized cfg" and "key \<noteq> ''is_dict_initialized''"
  shows "finalized (try_delattr (cfg\<lparr>entries := AList.delete key (entries cfg)\<rparr>) key)"
  using assms cells_delete [of "entries cfg" key]
  by (simp add: finalized_def try_delattr_def)

lemma finalized_lookup:
  assumes "finalized cfg" and "map_of (entries cfg) key = Some c"
  shows "\<exists>x. c = PConfigValue x"
proof -
  from assms(2) have "(key, c) \<in> set (entries cfg)" by (rule map_of_SomeD)
  with assms(1) have "cell_value c \<noteq> None" by (auto simp: finalized_def list_all_iff)
  then show ?thesis by (cases c) simp_all
qed

text \<open>
  Claim C2, as amended. \<open>EnvConfig.__init__\<close> leaves the collection finalized, with the
  entries it was given. While the collection is finalized: every item assignment, to an
  existing or a new key, raises \<open>ImmutableError\<close> and leaves the collection as it was;
  \<open>keys\<close> returns the keys; for a key of the collection item access and \<open>get\<close> return the
  value inside the stored cell; for any other key item access raises \<open>KeyError\<close> and
  \<open>get\<close> returns the default, unwrapped when it is a cell. Deleting or popping a key
  other than \<open>is_dict_initialized\<close> leaves the collection finalized.
\<close>

theorem EnvConfig_immutable_after_init:
  "(EnvConfig_init cls d = Inr cfg0 \<longrightarrow> finalized cfg0 \<and> entries cfg0 = d)
   \<and> (finalized cfg \<longrightarrow>
        EnvConfig_setitem cls cfg key value = (Inl immutable_error, cfg)
        \<and> EnvConfig_keys cfg = Inr (map fst (entries cfg))
        \<and> (\<forall>c. map_of (entries cfg) key = Some c \<longrightarrow>
              (\<exists>x. c = PConfigValue x \<and> EnvConfig_getitem cfg key = Inr x
                   \<and> EnvConfig_get cfg key dflt = Inr x))
        \<and> (map_of (entries cfg) key = None \<longrightarrow>
              EnvConfig_getitem cfg key = Inl (Raised KeyError ''{key}'' [PStr key])
              \<and> EnvConfig_get cfg key dflt = Inr (unwrap_cell dflt))
        \<and> (key \<noteq> ''is_dict_initialized'' \<longrightarrow>
              finalized (snd (EnvConfig_delitem cfg key)) \<and> finalized (snd (EnvConfig_pop cfg key dflt))))"
proof (intro conjI impI allI)
  assume "EnvConfig_init cls d = Inr cfg0"
  from EnvConfig_init_state [OF this] show "finalized cfg0" and "entries cfg0 = d" by simp_all
next
  assume "finalized cfg"
  then show "EnvConfig_setitem cls cfg key value = (Inl immutable_error, cfg)"
    by (simp add: EnvConfig_setitem_def finalized_def)
next
  show "EnvConfig_keys cfg = Inr (map fst (entries cfg))"
    by (simp add: EnvConfig_keys_def)
next
  fix c
  assume f: "finalized cfg" and m: "map_of (entries cfg) key = Some c"
  from finalized_lookup [OF f m] obtain x where "c = PConfigValue x" ..
  with m show "\<exists>x. c = PConfigValue x \<and> EnvConfig_getitem cfg key = Inr x
                   \<and> EnvConfig_get cfg key dflt = Inr x"
    by (simp add: EnvConfig_getitem_def EnvConfig_get_def)
next
  assume "map_of (entries cfg) key = None"
  then show "EnvConfig_getitem cfg key = Inl (Raised KeyError ''{key}'' [PStr key])"
    and "EnvConfig_get cfg key dflt = Inr (unwrap_cell dflt)"
    by (simp_all add: EnvConfig_getitem_def EnvConfig_get_def)
next
  assume f: "finalized cfg" and k: "key \<noteq> ''is_dict_initialized''"
  from finalized_try_delattr [OF f k] f
  show "finalized (snd (EnvConfig_delitem cfg key))"
    by (simp add: EnvConfig_delitem_def split: option.splits)
  from finalized_try_delattr [OF f k]
  show "finalized (snd (EnvConfig_pop cfg key dflt))"
    by (simp add: EnvConfig_pop_def Let_def)
qed

lemma sample_config_init:
  "EnvConfig_init [''get'', ''pop''] [(''db_host'', PConfigValue (PStr ''localhost''))] = Inr sample_config"
  by (simp add: EnvConfig_init_def bind_result_def has_attribute_def sample_config_def)

theorem EnvConfig_immutable_after_init_witness:
  "EnvConfig_init [''get'', ''pop''] [(''db_host'', PConfigValue (PStr ''localhost''))] = Inr sample_config
   \<and> finalized sample_config
   \<and> EnvConfig_setitem [''get'', ''pop''] sample_config ''db_host'' (PStr ''new_host'') =
       (Inl immutable_error, sample_config)
   \<and> EnvConfig_keys sample_config = Inr [''db_host'']
   \<and> EnvConfig_getitem sample_config ''db_host'' = Inr (PStr ''localhost'')
   \<and> EnvConfig_get sample_config ''db_host'' PNone = Inr (PStr ''localhost'')
   \<and> EnvConfig_getitem sample_config ''missing'' = Inl (Raised KeyError ''{key}'' [PStr ''missing''])
   \<and> EnvConfig_get sample_config ''missing'' PNone = Inr PNone
   \<and> finalized (snd (EnvConfig_delitem sample_config ''db_host''))"
proof -
  have m: "map_of (entries sample_config) ''db_host'' = Some (PConfigValue (PStr ''localhost''))"
    and n: "map_of (entries sample_config) ''missing'' = None"
    and e: "map fst (entries sample_config) = [''db_host'']"
    and k: "''db_host'' \<noteq> ''is_dict_initialized''"
    by (simp_all add: sample_config_def)
  from EnvConfig_immutable_after_init
      [of "[''get'', ''pop'']" "[(''db_host'', PConfigValue (PStr ''localhost''))]" sample_config
          sample_config "''db_host''" "PStr ''new_host''" PNone]
    EnvConfig_immutable_after_init
      [of "[''get'', ''pop'']" "[(''db_host'', PConfigValue (PStr ''localhost''))]" sample_config
          sample_config "''missing''" "PStr ''new_host''" PNone]
    sample_config_init m n e k
  show ?thesis by auto
qed

text \<open>
  The claim as written fails for deletion, which the flag does not guard, for item
  access with a missing key, and for an assignment after \<open>pop\<close> has removed the
  attribute \<open>is_dict_initialized\<close> itself, which raises \<open>AttributeError\<close>.
\<close>

theorem EnvConfig_immutable_counterexample:
  "EnvConfig_init [''get'', ''pop''] [(''db_host'', PConfigValue (PStr ''localhost''))] = Inr sample_config
   \<and> EnvConfig_pop sample_config ''db_host'' PNone =
       (Inr (PConfigValue (PStr ''localhost'')),
        \<lparr>entries = [], attributes = [], is_dict_initialized = Some True\<rparr>)
   \<and> EnvConfig_delitem sample_config ''db_host'' =
       (Inr (), \<lparr>entries = [], attributes = [], is_dict_initialized = Some True\<rparr>)
   \<and> EnvConfig_popitem sample_config =
       (Inr (''db_host'', PConfigValue (PStr ''localhost'')),
        \<lparr>entries = [], attributes = [], is_dict_initialized = Some True\<rparr>)
   \<and> EnvConfig_getitem sample_config ''missing'' = Inl (Raised KeyError ''{key}'' [PStr ''missing''])
   \<and> EnvConfig_pop sample_config ''is_dict_initialized'' PNone =
       (Inr PNone, sample_config\<lparr>is_dict_initialized := None\<rparr>)
   \<and> EnvConfig_setitem [''get'', ''pop''] (sample_config\<lparr>is_dict_initialized := None\<rparr>)
         ''db_host'' (PConfigValue (PStr ''new_host'')) =
       (Inl (Raised AttributeError ''object has no attribute is_dict_initialized'' []),
        sample_config\<lparr>is_dict_initialized := None\<rparr>)"
  by (simp add: sample_config_init EnvConfig_pop_def EnvConfig_delitem_def EnvConfig_popitem_def
      EnvConfig_getitem_def EnvConfig_setitem_def try_delattr_def sample_config_def)

subsection \<open>Order of the password rules\<close>

lemma re_search_from_Atom:
  "re_search_from ic (Atom cs) b s = list_ex (cset_mem cs) s"
  by (induction s arbitrary: b) auto

lemma re_search_class:
  "re_search False (Atom (Set [(lo, hi)])) s = has_char_between lo hi s"
  by (simp add: re_search_def re_search_from_Atom has_char_between_def in_ranges_def list_ex_iff)

lemma in_ranges_singletons: "in_ranges (map (\<lambda>c. (c, c)) t) x = (x \<in> set t)"
  by (induction t) (auto simp: in_ranges_def)

lemma re_search_special_set:
  "re_search False (Atom (Set (map (\<lambda>c. (c, c)) t))) s = list_ex (\<lambda>c. c \<in> set t) s"
  by (simp add: re_search_def re_search_from_Atom in_ranges_singletons list_ex_iff)

lemma lits_simps:
  "lits [] = Eps"
  "lits (c # p) = Cat (Lit c) (lits p)"
  by (simp_all add: lits_def)

lemma rx_run_lits:
  "(rx_run True (lits p) (b, s) \<noteq> []) = prefix (py_lower p) (py_lower s)"
proof (induction p arbitrary: b s)
  case Nil
  then show ?case by (simp add: lits_simps py_lower_def)
next
  case (Cons c p)
  show ?case
  proof (cases s)
    case Nil
    then show ?thesis by (simp add: lits_simps py_lower_def)
  next
    case (Cons x xs)
    then show ?thesis
      using Cons.IH [of False xs]
      by (auto simp: lits_simps py_lower_def lit_match_def)
  qed
qed

lemma rx_run_foldl_Alt:
  "(rx_run ic (foldl Alt r rs) st \<noteq> []) = (rx_run ic r st \<noteq> [] \<or> list_ex (\<lambda>q. rx_run ic q st \<noteq> []) rs)"
  by (induction rs arbitrary: r) auto

lemma rx_run_alts_lits:
  "ps \<noteq> [] \<Longrightarrow>
     (rx_run True (alts (map lits ps)) (b, s) \<noteq> []) = list_ex (\<lambda>p. prefix (py_lower p) (py_lower s)) ps"
  by (cases ps) (auto simp: alts_def rx_run_foldl_Alt rx_run_lits list_ex_iff)

lemma re_search_from_alts_lits:
  "ps \<noteq> [] \<Longrightarrow>
     re_search_from True (alts (map lits ps)) b s = list_ex (\<lambda>p. sublist (py_lower p) (py_lower s)) ps"
proof (induction s arbitrary: b)
  case Nil
  then show ?case
    using rx_run_alts_lits [of ps b "[]"] by (simp add: py_lower_def)
next
  case (Cons x xs)
  then show ?case
    using rx_run_alts_lits [of ps b "x # xs"] Cons.IH [of False]
    by (auto simp: py_lower_def sublist_Cons_right list_ex_iff)
qed

lemma re_search_common_patterns:
  "re_search True rx_common_patterns s = list_ex (\<lambda>p. sublist (py_lower p) (py_lower s)) common_patterns"
  unfolding re_search_def rx_common_patterns_def common_patterns_def [symmetric]
  by (rule re_search_from_alts_lits) (simp add: common_patterns_def)

lemma password_messages_distinct:
  "distinct (map (\<lambda>r. error_message (password_error opts r)) rule_order)"
  by (simp add: rule_order_def password_error_def)

lemma password_value_unwrapped:
  assumes "v = PStr s \<or> (is_proxy v \<and> original_data v = Some (PStr s))"
  shows "(if class_name v = ''SecureValue''
          then (case original_data v of Some orig \<Rightarrow> orig | None \<Rightarrow> v) else v) = PStr s"
  using assms by (cases v) (auto simp: class_name_def)

lemma StrongPassword_first_violation:
  assumes "special_chars_list opts = SpecialStr t" and "plain_class_text t"
    and "v = PStr s \<or> (is_proxy v \<and> original_data v = Some (PStr s))"
  shows "StrongPassword_value_validator rt uv opts v =
           (case first_violation opts s of
              None \<Rightarrow> Inr ()
            | Some rule \<Rightarrow> Inl (password_error opts rule))"
  unfolding StrongPassword_value_validator_def password_value_unwrapped [OF assms(3)] Let_def
  using assms(1,2)
  by (simp add: py_len_def bind_result_def first_violation_def rule_order_def
      re_search_class rx_uppercase_def rx_lowercase_def rx_digit_def special_search_def
      re_search_special_set re_search_common_patterns)

text \<open>
  Claim C5. For a password text, plain or inside the proxy the pipeline wraps it in, and a
  special-character set given as plain text, the check reports exactly the first rule
  violated in the order: too short, too long, no upper-case letter, no lower-case letter,
  no digit, no special character, common pattern (matched ignoring case); it passes when
  no rule is violated; and the seven messages are pairwise distinct.
\<close>

theorem password_failure_order:
  "(special_chars_list opts = SpecialStr t \<longrightarrow> plain_class_text t \<longrightarrow>
      (v = PStr s \<or> (is_proxy v \<and> original_data v = Some (PStr s))) \<longrightarrow>
      StrongPassword_value_validator rt uv opts v =
        (case find (violates opts s) rule_order of
           None \<Rightarrow> Inr ()
         | Some rule \<Rightarrow> Inl (password_error opts rule)))
   \<and> distinct (map (\<lambda>r. error_message (password_error opts r)) rule_order)"
  using StrongPassword_first_violation [of opts t v s rt uv] password_messages_distinct [of opts]
  by (simp add: first_violation_def)

lemma default_special: 
  "special_chars_list default_password_options = SpecialStr ''!@#$%^&*()_+''"
  "min_length default_password_options = 8"
  "max_length default_password_options = None"
  by (simp_all add: default_password_options_def StrongPassword_options_def SPECIAL_CHARS_def)

lemma default_plain: "plain_class_text ''!@#$%^&*()_+''"
  by (simp add: plain_class_text_def)

lemma first_violation_Abc14: "find (violates default_password_options ''Abc@14'') rule_order = Some TooShort"
  by (simp add: rule_order_def default_special)

lemma first_violation_Abc1234:
  "find (violates default_password_options ''Abc@1234!'') rule_order = Some CommonPattern"
  by (simp add: rule_order_def default_special has_char_between_def common_patterns_def
      py_lower_def py_lower_char_def sublist_code)

theorem password_failure_order_witness:
  "StrongPassword_value_validator sample_runtime no_user_validator default_password_options (PStr ''Abc@14'') =
     Inl (Raised ValueError ''Password must be at least {self.min_length} characters long.'' [PInt 8])
   \<and> StrongPassword_value_validator sample_runtime no_user_validator default_password_options
        (SecureMut (Some TConfigValue) [''__len__''] (PStr ''Abc@1234!'')) =
     Inl (Raised ValueError ''Password should not contain common patterns or sequences.'' [])
   \<and> \<not> violates default_password_options ''Abc@1234!'' NoUppercase
   \<and> \<not> violates default_password_options ''Abc@1234!'' NoLowercase
   \<and> \<not> violates default_password_options ''Abc@1234!'' NoDigit
   \<and> \<not> violates default_password_options ''Abc@1234!'' NoSpecial"
proof -
  have a: "PStr ''Abc@14'' = PStr ''Abc@14'' \<or>
           (is_proxy (PStr ''Abc@14'') \<and> original_data (PStr ''Abc@14'') = Some (PStr ''Abc@14''))"
    by simp
  have b: "SecureMut (Some TConfigValue) [''__len__''] (PStr ''Abc@1234!'') = PStr ''Abc@1234!'' \<or>
           (is_proxy (SecureMut (Some TConfigValue) [''__len__''] (PStr ''Abc@1234!'')) \<and>
            original_data (SecureMut (Some TConfigValue) [''__len__''] (PStr ''Abc@1234!'')) = Some (PStr ''Abc@1234!''))"
    by simp
  have c: "\<not> violates default_password_options ''Abc@1234!'' NoUppercase"
    "\<not> violates default_password_options ''Abc@1234!'' NoLowercase"
    "\<not> violates default_password_options ''Abc@1234!'' NoDigit"
    "\<not> violates default_password_options ''Abc@1234!'' NoSpecial"
    by (simp_all add: has_char_between_def default_special)
  from password_failure_order [of default_password_options "''!@#$%^&*()_+''" "PStr ''Abc@14''" "''Abc@14''"
      sample_runtime no_user_validator]
    password_failure_order [of default_password_options "''!@#$%^&*()_+''"
      "SecureMut (Some TConfigValue) [''__len__''] (PStr ''Abc@1234!'')" "''Abc@1234!''"
      sample_runtime no_user_validator]
    default_special(1) default_plain a b
  show ?thesis
    using c by (simp add: first_violation_Abc14 first_violation_Abc1234 password_error_def default_special)
qed

subsection \<open>Integer conversion of text\<close>

lemma is_digit_digit_char: "d < 10 \<Longrightarrow> is_digit (digit_char d)"
  by (simp add: is_digit_def digit_char_def)

lemma digit_val_digit_char: "d < 10 \<Longrightarrow> digit_val (digit_char d) = int d"
  by (simp add: digit_val_def digit_char_def)

lemma digits_of_digits: "c \<in> set (digits_of n) \<Longrightarrow> is_digit c"
proof (induction n arbitrary: c rule: digits_of.induct)
  case (1 n)
  show ?case
  proof (cases "n < 10")
    case True
    with "1.prems" show ?thesis
      by (simp add: digits_of.simps [of n] is_digit_digit_char)
  next
    case False
    with "1.prems" "1.IH" show ?thesis
      by (auto simp: digits_of.simps [of n] is_digit_digit_char)
  qed
qed

lemma digits_of_nonempty: "digits_of n \<noteq> []"
  by (subst digits_of.simps) simp

lemma digits_value_digits_of: "digits_value 0 (digits_of n) = int n"
proof (induction n rule: digits_of.induct)
  case (1 n)
  show ?case
  proof (cases "n < 10")
    case True
    then show ?thesis
      by (simp add: digits_of.simps [of n] digits_value_def digit_val_digit_char)
  next
    case False
    with "1.IH" have "digits_value 0 (digits_of (n div 10)) = int (n div 10)" by simp
    with False show ?thesis
      by (simp add: digits_of.simps [of n] digits_value_def digit_val_digit_char zdiv_int zmod_int)
  qed
qed

lemma digits_of_length: "n < 10 ^ k \<Longrightarrow> 0 < k \<Longrightarrow> length (digits_of n) \<le> k"
proof (induction n arbitrary: k rule: digits_of.induct)
  case (1 n)
  show ?case
  proof (cases "n < 10")
    case True
    with "1.prems" show ?thesis by (simp add: digits_of.simps [of n])
  next
    case False
    from "1.prems" obtain j where k: "k = Suc j" by (cases k) auto
    with False "1.prems" have j: "0 < j" by (cases j) auto
    from "1.prems" k have "n div 10 < 10 ^ j" by (simp add: less_mult_imp_div_less mult.commute)
    from "1.IH" [OF False this j] False k show ?thesis
      by (simp add: digits_of.simps [of n])
  qed
qed

lemma scan_digits_all_digits:
  "(\<And>c. c \<in> set xs \<Longrightarrow> is_digit c) \<Longrightarrow>
     scan_digits acc n False xs = Some (digits_value acc xs, n + length xs, [])"
  by (induction xs arbitrary: acc n) (auto simp: digits_value_def)

lemma scan_digits_of:
  "scan_digits 0 0 False (digits_of n) = Some (int n, length (digits_of n), [])"
  using scan_digits_all_digits [of "digits_of n" 0 0]
  by (simp add: digits_of_digits digits_value_digits_of)

lemma is_digit_hd_digits_of: "is_digit (hd (digits_of n))"
  using digits_of_nonempty [of n] digits_of_digits [of "hd (digits_of n)" n] by simp

lemma int_scan_digits_of:
  "int_scan (digits_of n) = Some (False, int n, length (digits_of n), [])"
proof -
  obtain c cs where d: "digits_of n = c # cs"
    using digits_of_nonempty [of n] by (cases "digits_of n") auto
  with is_digit_hd_digits_of [of n] have c: "is_digit c" by simp
  then have "\<not> is_literal_space c" "c \<noteq> CHR ''-''" "c \<noteq> CHR ''+''" "c \<noteq> CHR ''_''"
    by (auto simp: is_digit_def is_literal_space_def)
  with scan_digits_of [of n] d show ?thesis
    by (simp add: int_scan_def)
qed

lemma int_scan_minus_digits_of:
  "int_scan (CHR ''-'' # digits_of n) = Some (True, int n, length (digits_of n), [])"
proof -
  obtain c cs where d: "digits_of n = c # cs"
    using digits_of_nonempty [of n] by (cases "digits_of n") auto
  with is_digit_hd_digits_of [of n] have c: "is_digit c" by simp
  then have "c \<noteq> CHR ''_''" by (auto simp: is_digit_def)
  with scan_digits_of [of n] d show ?thesis
    by (simp add: int_scan_def is_literal_space_def)
qed

lemma py_int_str_py_str_int:
  assumes "\<bar>n\<bar> < 10 ^ 640"
  shows "py_int_str limit (py_str_int n) = Inr n"
proof -
  from assms have "nat \<bar>n\<bar> < 10 ^ 640"
    by (metis nat_less_iff abs_ge_zero of_nat_numeral of_nat_power)
  then have l: "length (digits_of (nat \<bar>n\<bar>)) \<le> 640" by (rule digits_of_length) simp
  show ?thesis
  proof (cases "n < 0")
    case True
    then have "nat \<bar>n\<bar> = nat (- n)" by simp
    with l True show ?thesis
      by (simp add: py_int_str_def py_str_int_def int_scan_minus_digits_of digits_of_nonempty)
  next
    case False
    then have "nat \<bar>n\<bar> = nat n" by simp
    with l False show ?thesis
      by (simp add: py_int_str_def py_str_int_def int_scan_digits_of digits_of_nonempty)
  qed
qed

lemma py_int_str_literal: "py_int_str limit t = Inr n \<Longrightarrow> int_literal t = Some n"
  by (auto simp: py_int_str_def int_literal_def split: option.splits if_splits)

lemma round_binary64_exact: "(round_binary64 n = Some n) = exactly_representable n"
proof (cases "\<bar>n\<bar> < 2 ^ 53")
  case True
  then show ?thesis by (simp add: round_binary64_def exactly_representable_def)
next
  case False
  define a where "a = \<bar>n\<bar>"
  define e where "e = nat (bitlen a - 53)"
  define q where "q = a div 2 ^ e"
  define r where "r = a mod 2 ^ e"
  define h :: int where "h = 2 ^ (e - 1)"
  define m where "m = (if r > h \<or> (r = h \<and> odd q) then q + 1 else q)"
  from False have a: "2 ^ 53 \<le> a" by (simp add: a_def)
  have h: "0 < h" by (simp add: h_def)
  have r: "0 \<le> r" "r < 2 ^ e" by (simp_all add: r_def)
  have aq: "a = q * 2 ^ e + r" unfolding q_def r_def by (rule div_mult_mod_eq [symmetric])
  have n: "n \<noteq> 0" using a by (auto simp: a_def)
  have sg: "(sgn n * v = n) = (v = a)" for v
  proof (cases "n < 0")
    case True
    then show ?thesis by (auto simp: a_def sgn_if)
  next
    case False
    with n show ?thesis by (auto simp: a_def sgn_if)
  qed
  have v: "(m * 2 ^ e = a) = (r = 0)"
  proof
    assume "m * 2 ^ e = a"
    with aq have "m * 2 ^ e = q * 2 ^ e + r" by simp
    moreover have "(q + 1) * 2 ^ e = q * 2 ^ e + 2 ^ e" for q :: int by (simp add: algebra_simps)
    ultimately show "r = 0" using r by (auto simp: m_def split: if_splits)
  next
    assume z: "r = 0"
    with h have "m = q" by (simp add: m_def)
    with aq z show "m * 2 ^ e = a" by simp
  qed
  have rb: "round_binary64 n = (if m * 2 ^ e \<ge> 2 ^ 1024 then None else Some (sgn n * (m * 2 ^ e)))"
    unfolding round_binary64_def Let_def m_def h_def r_def q_def e_def a_def
    using False by (simp only: if_False)
  have "(round_binary64 n = Some n) = (r = 0 \<and> a < 2 ^ 1024)"
  proof (cases "r = 0")
    case True
    with v have "m * 2 ^ e = a" by simp
    with True rb sg [of a] show ?thesis by auto
  next
    case False
    with v have "m * 2 ^ e \<noteq> a" by simp
    with False rb sg [of "m * 2 ^ e"] show ?thesis by auto
  qed
  with False show ?thesis
    by (simp add: exactly_representable_def a_def [symmetric] e_def [symmetric] r_def [symmetric])
qed

lemma exactly_representable_iff:
  "exactly_representable n = (\<exists>m e. \<bar>n\<bar> = m * 2 ^ e \<and> m < 2 ^ 53 \<and> \<bar>n\<bar> < 2 ^ 1024)"
proof (cases "\<bar>n\<bar> < 2 ^ 53")
  case True
  have "\<bar>n\<bar> = \<bar>n\<bar> * 2 ^ 0" by simp
  moreover from True have "\<bar>n\<bar> < 2 ^ 1024"
    by (rule less_le_trans) (simp add: power_increasing)
  ultimately have "\<exists>m e. \<bar>n\<bar> = m * 2 ^ e \<and> m < 2 ^ 53 \<and> \<bar>n\<bar> < 2 ^ 1024"
    using True by blast
  with True show ?thesis by (simp add: exactly_representable_def)
next
  case False
  define a where "a = \<bar>n\<bar>"
  define k where "k = nat (bitlen a - 53)"
  from False have a: "2 ^ 53 \<le> a" by (simp add: a_def)
  then have pos: "0 < a" by (rule less_le_trans [rotated]) simp
  from a have "54 \<le> bitlen a" by (simp add: bitlen_ge_iff_power)
  then have bk: "bitlen a = int k + 53" by (simp add: k_def)
  show ?thesis
  proof
    assume "exactly_representable n"
    with False have z: "a mod 2 ^ k = 0" and u: "a < 2 ^ 1024"
      by (simp_all add: exactly_representable_def a_def k_def)
    from z have d: "a = (a div 2 ^ k) * 2 ^ k" by (simp add: mod_eq_0_iff_dvd)
    from bitlen_bounds [OF pos] bk have "a < 2 ^ (k + 53)" by (simp add: nat_add_distrib)
    then have "a < 2 ^ 53 * 2 ^ k" by (simp add: power_add mult.commute)
    with d have "(a div 2 ^ k) * 2 ^ k < 2 ^ 53 * 2 ^ k" by simp
    then have "a div 2 ^ k < 2 ^ 53" by (rule mult_right_less_imp_less) simp
    with d u show "\<exists>m e. \<bar>n\<bar> = m * 2 ^ e \<and> m < 2 ^ 53 \<and> \<bar>n\<bar> < 2 ^ 1024"
      unfolding a_def [symmetric] by blast
  next
    assume "\<exists>m e. \<bar>n\<bar> = m * 2 ^ e \<and> m < 2 ^ 53 \<and> \<bar>n\<bar> < 2 ^ 1024"
    then obtain m :: int and e :: nat where m: "a = m * 2 ^ e" "m < 2 ^ 53" and u: "a < 2 ^ 1024"
      unfolding a_def [symmetric] by blast
    from pos m(1) have mp: "0 < m" by (simp add: zero_less_mult_iff)
    from m(2) have "bitlen m \<le> 53" by (simp add: bitlen_le_iff_power)
    moreover from mp m(1) have "bitlen a = bitlen m + int e" by simp
    ultimately have "k \<le> e" using bk by simp
    then have "(2 :: int) ^ k dvd 2 ^ e" by (rule le_imp_power_dvd)
    then have "2 ^ k dvd a" unfolding m(1) by (rule dvd_mult)
    then have "a mod 2 ^ k = 0" by (simp add: mod_eq_0_iff_dvd)
    with u show "exactly_representable n"
      by (simp add: exactly_representable_def a_def [symmetric] k_def [symmetric])
  qed
qed

lemma exactly_representable_small: "\<bar>n\<bar> \<le> 2 ^ 53 \<Longrightarrow> exactly_representable n"
proof (cases "\<bar>n\<bar> < 2 ^ 53")
  case True
  then show ?thesis by (simp add: exactly_representable_def)
next
  case False
  assume "\<bar>n\<bar> \<le> 2 ^ 53"
  with False have "n = 9007199254740992 \<or> n = - 9007199254740992" by auto
  moreover have "exactly_representable 9007199254740992" by code_simp
  moreover have "exactly_representable (- 9007199254740992)" by code_simp
  ultimately show ?thesis by auto
qed

lemma IntegerDataType_convert_text:
  assumes "py_int_str (int_max_str_digits rt) t = Inr n"
  shows "IntegerDataType_convert_type rt sb (PStr t) =
           (if exactly_representable n then Inr (PInt n)
            else Inl (Raised ValueError
                   ''Value {self.value} must be an integer not of type float or boolean.'' [PStr t]))"
proof -
  have "int_ne_float n (float_of_int_text n) = (\<not> exactly_representable n)"
    unfolding round_binary64_exact [symmetric]
    by (auto simp: int_ne_float_def float_of_int_text_def split: option.splits)
  with assms py_int_str_literal [OF assms] show ?thesis
    by (simp add: IntegerDataType_convert_type_def py_isinstance_def py_int_def py_float_def
        bind_result_def)
qed

lemma in_set_dropWhile: "x \<in> set xs \<Longrightarrow> \<not> P x \<Longrightarrow> x \<in> set (dropWhile P xs)"
  by (induction xs) auto

lemma scan_digits_split:
  "scan_digits acc n prev xs = Some (a, m, rest) \<Longrightarrow>
     \<exists>pre. xs = pre @ rest \<and> (\<forall>c \<in> set pre. is_digit c \<or> c = CHR ''_'')"
proof (induction xs arbitrary: acc n prev)
  case Nil
  then show ?case by (simp split: if_splits)
next
  case (Cons x xs)
  show ?case
  proof (cases "is_digit x \<or> x = CHR ''_''")
    case True
    with Cons.prems obtain acc' n' prev' where "scan_digits acc' n' prev' xs = Some (a, m, rest)"
      by (auto split: if_splits)
    from Cons.IH [OF this] obtain pre where "xs = pre @ rest"
      and "\<forall>c \<in> set pre. is_digit c \<or> c = CHR ''_''" by blast
    with True have "x # xs = (x # pre) @ rest \<and> (\<forall>c \<in> set (x # pre). is_digit c \<or> c = CHR ''_'')"
      by simp
    then show ?thesis by blast
  next
    case False
    with Cons.prems have "rest = x # xs" by (auto split: if_splits)
    then have "x # xs = [] @ rest \<and> (\<forall>c \<in> set []. is_digit c \<or> c = CHR ''_'')" by simp
    then show ?thesis by blast
  qed
qed

lemma int_scan_point:
  assumes "int_scan t = Some (negative, a, m, rest)" and "CHR ''.'' \<in> set t"
  shows "dropWhile is_literal_space rest \<noteq> []"
proof -
  let ?t = "dropWhile is_literal_space t"
  let ?u = "if ?t \<noteq> [] \<and> (hd ?t = CHR ''-'' \<or> hd ?t = CHR ''+'') then tl ?t else ?t"
  have sp: "\<not> is_literal_space (CHR ''.'')" by (simp add: is_literal_space_def)
  from in_set_dropWhile [of _ t is_literal_space, OF assms(2) sp]
  have "CHR ''.'' \<in> set ?t" .
  then have u: "CHR ''.'' \<in> set ?u" by (cases ?t) auto
  from assms(1) have "scan_digits 0 0 False ?u = Some (a, m, rest)"
    by (auto simp: int_scan_def Let_def split: if_splits)
  from scan_digits_split [OF this] obtain pre where "?u = pre @ rest"
    and "\<forall>c \<in> set pre. is_digit c \<or> c = CHR ''_''" by blast
  with u have "CHR ''.'' \<in> set rest" by (auto simp: is_digit_def)
  with sp show ?thesis by (auto simp: dropWhile_eq_Nil_conv)
qed

lemma py_int_str_no_point:
  assumes "CHR ''.'' \<in> set t"
  shows "\<exists>msg args. py_int_str limit t = Inl (Raised ValueError msg args)"
  using int_scan_point [OF _ assms]
  by (auto simp: py_int_str_def invalid_literal_def split: option.splits)

text \<open>
  Claim C3, as amended. For every text \<open>t\<close> that \<open>int()\<close> reads as the integer \<open>n\<close>,
  the convert stage of the Integer descriptor yields the integer \<open>n\<close> when a binary64
  float represents \<open>n\<close> exactly, and raises \<open>ValueError\<close> otherwise: the check
  \<open>int(t) != float(t)\<close> compares \<open>n\<close> with its rounding. The integers represented
  exactly are those of the form \<open>m * 2 ^ e\<close> with \<open>m < 2 ^ 53\<close>, below \<open>2 ^ 1024\<close>;
  all of magnitude at most \<open>2 ^ 53\<close> are. The decimal text \<open>str(n)\<close> of an integer of
  at most 640 digits is read by \<open>int()\<close> as \<open>n\<close>, whatever the limit on digits. A text
  with a decimal point is rejected with \<open>ValueError\<close>, already by \<open>int()\<close>.
\<close>

theorem integer_text_round_trip:
  "(py_int_str (int_max_str_digits rt) t = Inr n \<longrightarrow>
      convert_type rt (IntegerDataType uv True sb) (PStr t) =
        (if exactly_representable n then Inr (PInt n)
         else Inl (Raised ValueError
                ''Value {self.value} must be an integer not of type float or boolean.'' [PStr t])))
   \<and> exactly_representable n = (\<exists>m e. \<bar>n\<bar> = m * 2 ^ e \<and> m < 2 ^ 53 \<and> \<bar>n\<bar> < 2 ^ 1024)
   \<and> (\<bar>n\<bar> \<le> 2 ^ 53 \<longrightarrow> exactly_representable n)
   \<and> (\<bar>n\<bar> < 10 ^ 640 \<longrightarrow> py_int_str limit (py_str_int n) = Inr n)
   \<and> (CHR ''.'' \<in> set t \<longrightarrow>
        (\<exists>msg args. convert_type rt (IntegerDataType uv True sb) (PStr t) =
           Inl (Raised ValueError msg args)))"
proof (intro conjI impI)
  assume "py_int_str (int_max_str_digits rt) t = Inr n"
  then show "convert_type rt (IntegerDataType uv True sb) (PStr t) =
        (if exactly_representable n then Inr (PInt n)
         else Inl (Raised ValueError
                ''Value {self.value} must be an integer not of type float or boolean.'' [PStr t]))"
    by (simp add: IntegerDataType_convert_text)
next
  show "exactly_representable n = (\<exists>m e. \<bar>n\<bar> = m * 2 ^ e \<and> m < 2 ^ 53 \<and> \<bar>n\<bar> < 2 ^ 1024)"
    by (rule exactly_representable_iff)
next
  assume "\<bar>n\<bar> \<le> 2 ^ 53"
  then show "exactly_representable n" by (rule exactly_representable_small)
next
  assume "\<bar>n\<bar> < 10 ^ 640"
  then show "py_int_str limit (py_str_int n) = Inr n" by (rule py_int_str_py_str_int)
next
  assume "CHR ''.'' \<in> set t"
  from py_int_str_no_point [OF this, of "int_max_str_digits rt"]
  show "\<exists>msg args. convert_type rt (IntegerDataType uv True sb) (PStr t) =
           Inl (Raised ValueError msg args)"
    by (auto simp: IntegerDataType_convert_type_def py_isinstance_def py_int_def bind_result_def)
qed

lemma py_int_str_42: "py_int_str 4300 '' +4_2 '' = Inr 42"
  by (simp add: py_int_str_def int_scan_def is_literal_space_def is_digit_def digit_val_def)

lemma small_magnitude: "\<bar>- 7 :: int\<bar> < 10 ^ 640"
proof -
  have "\<bar>- 7 :: int\<bar> < 10 ^ 1" by simp
  also have "(10 :: int) ^ 1 \<le> 10 ^ 640" by (rule power_increasing) simp_all
  finally show ?thesis .
qed

theorem integer_text_round_trip_witness:
  "py_int_str (int_max_str_digits sample_runtime) '' +4_2 '' = Inr 42
   \<and> convert_type sample_runtime (IntegerDataType no_user_validator True False) (PStr '' +4_2 '') = Inr (PInt 42)
   \<and> exactly_representable 42
   \<and> py_int_str 4300 (py_str_int (- 7)) = Inr (- 7)
   \<and> (\<exists>msg args. convert_type sample_runtime (IntegerDataType no_user_validator True False) (PStr ''1.5'') =
        Inl (Raised ValueError msg args))"
proof -
  have a: "\<bar>42 :: int\<bar> \<le> 2 ^ 53" by simp
  have b: "CHR ''.'' \<in> set ''1.5''" by simp
  have c: "py_int_str (int_max_str_digits sample_runtime) '' +4_2 '' = Inr 42"
    by (simp add: sample_runtime_def py_int_str_42)
  note r = integer_text_round_trip [of sample_runtime "'' +4_2 ''" 42 no_user_validator False 4300]
  from r a have 2: "exactly_representable 42" by blast
  from r c have "convert_type sample_runtime (IntegerDataType no_user_validator True False) (PStr '' +4_2 '') =
      (if exactly_representable 42 then Inr (PInt 42)
       else Inl (Raised ValueError
              ''Value {self.value} must be an integer not of type float or boolean.'' [PStr '' +4_2 '']))"
    by blast
  with 2 have 1: "convert_type sample_runtime (IntegerDataType no_user_validator True False) (PStr '' +4_2 '') =
             Inr (PInt 42)"
    by (simp only: if_True)
  from integer_text_round_trip [of sample_runtime "''1.5''" "- 7" no_user_validator False 4300]
    b small_magnitude
  have 3: "py_int_str 4300 (py_str_int (- 7)) = Inr (- 7)"
    and 4: "\<exists>msg args. convert_type sample_runtime (IntegerDataType no_user_validator True False) (PStr ''1.5'') =
        Inl (Raised ValueError msg args)"
    by blast+
  from c 1 2 3 4 show ?thesis by blast
qed

text \<open>
  The claim as written fails for an integer whose float parse rounds: \<open>int()\<close> reads
  the text of \<open>2 ^ 53 + 1\<close>, \<open>float()\<close> gives \<open>2 ^ 53\<close>, and the convert stage raises.
\<close>

lemma py_int_str_big: "py_int_str 4300 ''9007199254740993'' = Inr 9007199254740993"
  by (simp add: py_int_str_def int_scan_def is_literal_space_def is_digit_def digit_val_def)

lemma int_literal_big: "int_literal ''9007199254740993'' = Some 9007199254740993"
  using py_int_str_big by (rule py_int_str_literal)

lemma float_of_int_text_big: "float_of_int_text 9007199254740993 = Finite 9007199254740992"
  by code_simp

theorem integer_text_counterexample:
  "py_int_str (int_max_str_digits sample_runtime) ''9007199254740993'' = Inr 9007199254740993
   \<and> float_of_int_text 9007199254740993 = Finite 9007199254740992
   \<and> convert_type sample_runtime (IntegerDataType no_user_validator True False) (PStr ''9007199254740993'') =
       Inl (Raised ValueError ''Value {self.value} must be an integer not of type float or boolean.''
              [PStr ''9007199254740993''])"
  by (simp add: sample_runtime_def py_int_str_big int_literal_big float_of_int_text_big
      IntegerDataType_convert_type_def py_isinstance_def py_int_def py_float_def bind_result_def
      int_ne_float_def)

subsection \<open>Running the pipeline again on its output\<close>

lemma set_value_Inr_iff:
  "(set_value rt pol d raw = Inr c) =
     (\<exists>v. convert_to_secure_value pol (mask_value d) raw = Inr v
        \<and> precheck_empty_value (Some v) = Inr ()
        \<and> convert_type rt d v = Inr c
        \<and> validate_type d c = Inr ()
        \<and> value_validator rt d c = Inr ()
        \<and> run_user_validator d c = Inr ())"
  by (auto simp: set_value_def bind_result_def split: sum.splits)

lemma IntegerDataType_convert_type_output:
  "IntegerDataType_convert_type rt sb v = Inr c \<Longrightarrow> \<exists>i. c = PInt i"
  by (auto simp: IntegerDataType_convert_type_def bind_result_def split: sum.splits if_splits)

lemma IntegerDataType_convert_type_PInt:
  "IntegerDataType_convert_type rt sb (PInt i) = Inr (PInt i)"
  by (simp add: IntegerDataType_convert_type_def py_isinstance_def py_int_def bind_result_def)

lemma FloatDataType_convert_type_output:
  "FloatDataType_convert_type rt si sb v = Inr c \<Longrightarrow> c = v \<or> (\<exists>f. c = PFloat f)"
  by (auto simp: FloatDataType_convert_type_def bind_result_def split: sum.splits if_splits)

lemma FloatDataType_convert_type_PFloat:
  "FloatDataType_convert_type rt si sb (PFloat f) = Inr (PFloat f)"
  by (simp add: FloatDataType_convert_type_def py_isinstance_def)

lemma BooleanDataType_convert_type_output:
  "BooleanDataType_convert_type v = Inr c \<Longrightarrow> c = v \<or> (\<exists>b. c = PBool b)"
  by (auto simp: BooleanDataType_convert_type_def split: if_splits pyval.splits)

lemma BooleanDataType_convert_type_PBool:
  "BooleanDataType_convert_type (PBool b) = Inr (PBool b)"
  by (simp add: BooleanDataType_convert_type_def py_isinstance_def)

lemma plain_list_instance:
  "\<not> is_proxy c \<Longrightarrow> py_isinstance c TList \<Longrightarrow> \<exists>xs. c = PList xs"
  by (cases c) (auto simp: py_isinstance_def)

lemma plain_dict_instance:
  "\<not> is_proxy c \<Longrightarrow> py_isinstance c TDict \<Longrightarrow> \<exists>kvs. c = PDict kvs"
  by (cases c) (auto simp: py_isinstance_def)

lemma validate_type_Inr: "(validate_type d c = Inr ()) = py_isinstance c (data_type d)"
  by (simp add: validate_type_def)

text \<open>A conversion that changed a value which is not a proxy gave a value that the
  conversion and the precheck leave alone.\<close>

lemma convert_type_settles:
  assumes "convert_type rt d v = Inr c" and "\<not> is_proxy v" and "\<not> is_proxy c"
    and "validate_type d c = Inr ()" and "c \<noteq> v"
  shows "\<not> mask_value d \<and> convert_type rt d c = Inr c \<and> precheck_empty_value (Some c) = Inr ()"
proof (cases d)
  case (IntegerDataType uv conv sb)
  with assms obtain i where "c = PInt i"
    by (auto dest: IntegerDataType_convert_type_output split: if_splits)
  with IntegerDataType show ?thesis
    by (simp add: IntegerDataType_convert_type_PInt precheck_plain)
next
  case (PositiveIntegerDataType uv conv)
  with assms obtain i where "c = PInt i"
    by (auto dest: IntegerDataType_convert_type_output split: if_splits)
  with PositiveIntegerDataType show ?thesis
    by (simp add: IntegerDataType_convert_type_PInt precheck_plain)
next
  case (NegativeIntegerDataType uv conv)
  with assms obtain i where "c = PInt i"
    by (auto dest: IntegerDataType_convert_type_output split: if_splits)
  with NegativeIntegerDataType show ?thesis
    by (simp add: IntegerDataType_convert_type_PInt precheck_plain)
next
  case (FloatDataType uv conv si sb)
  with assms obtain f where "c = PFloat f"
    by (auto dest: FloatDataType_convert_type_output split: if_splits)
  with FloatDataType show ?thesis
    by (simp add: FloatDataType_convert_type_PFloat precheck_plain)
next
  case (BooleanDataType uv conv)
  with assms obtain b where "c = PBool b"
    by (auto dest: BooleanDataType_convert_type_output split: if_splits)
  with BooleanDataType show ?thesis
    by (simp add: BooleanDataType_convert_type_PBool precheck_plain)
next
  case (ListDataType uv conv)
  with assms(3,4) obtain xs where "c = PList xs"
    using plain_list_instance [of c] by (auto simp: validate_type_Inr)
  with ListDataType show ?thesis
    by (simp add: ListDataType_convert_type_def py_isinstance_def precheck_plain)
next
  case (DictDataType uv conv)
  with assms(3,4) obtain kvs where "c = PDict kvs"
    using plain_dict_instance [of c] by (auto simp: validate_type_Inr)
  with DictDataType show ?thesis
    by (simp add: DictDataType_convert_type_def py_isinstance_def precheck_plain)
qed (use assms in auto)

text \<open>Wrapping a proxy never returns the proxy itself.\<close>

lemma proxy_not_ignored:
  assumes "is_proxy c" and "original_data c = Some raw" and "\<not> is_proxy raw"
    and "\<not> is_ignored (Some TConfigValue) raw" and "\<not> py_isinstance raw TNoneType"
  shows "\<not> is_ignored (Some TConfigValue) c \<and> \<not> py_isinstance c TNoneType
         \<and> \<not> py_isinstance c TBool \<and> class_of c = TSecureValue"
  using assms by (cases c; cases raw) (auto simp: is_ignored_def py_isinstance_def)

lemma wrapper_differs: "SecureImm c \<noteq> c" "SecureMut ic ims c \<noteq> c"
proof -
  have "size (SecureImm c) \<noteq> size c" "size (SecureMut ic ims c) \<noteq> size c" by simp_all
  then show "SecureImm c \<noteq> c" "SecureMut ic ims c \<noteq> c" by fastforce+
qed

lemma CreateSecureValue_again:
  assumes "\<not> is_ignored ic c" and "\<not> py_isinstance c TNoneType" and "\<not> py_isinstance c TBool"
    and "class_of c = TSecureValue"
  shows "CreateSecureValue c m ic ims \<noteq> Inr c"
proof
  assume r: "CreateSecureValue c m ic ims = Inr c"
  have "check_inheritable_class TSecureValue = Inr True"
    by (simp add: check_inheritable_class_def)
  with r assms show False
    by (auto simp: CreateSecureValue_def SecureValue_call_def bind_result_def Let_def wrapper_differs
        split: if_splits sum.splits)
qed

text \<open>
  Claim C8, as amended. For every descriptor and every raw value that is not itself a
  masking proxy, when \<open>set_value\<close> passes with the canonical output \<open>c\<close>: if \<open>c\<close> is
  not a masking proxy, \<open>set_value\<close> on \<open>c\<close> passes and yields the same \<open>c\<close>; if the
  descriptor is secret-flagged and \<open>c\<close> is a masking proxy, \<open>set_value\<close> on \<open>c\<close> does
  not yield \<open>c\<close>: it raises, or yields another proxy.
\<close>

theorem set_value_idempotent:
  assumes "set_value rt pol d raw = Inr c" and "\<not> is_proxy raw"
  shows "(\<not> is_proxy c \<longrightarrow> set_value rt pol d c = Inr c)
       \<and> (mask_value d \<longrightarrow> is_proxy c \<longrightarrow>
            set_value rt pol d c \<noteq> Inr c
            \<and> (\<forall>c'. set_value rt pol d c = Inr c' \<longrightarrow> is_proxy c' \<and> unmasked c' = Inr c))"
proof (intro conjI impI allI)
  assume np: "\<not> is_proxy c"
  show "set_value rt pol d c = Inr c"
  proof (cases "c = raw")
    case True
    with assms(1) show ?thesis by simp
  next
    case False
    from assms(1) obtain v where
      w: "convert_to_secure_value pol (mask_value d) raw = Inr v"
      and c: "convert_type rt d v = Inr c"
      and t: "validate_type d c = Inr ()"
      and s: "value_validator rt d c = Inr ()"
      and u: "run_user_validator d c = Inr ()"
      by (auto simp: set_value_Inr_iff)
    have v: "v = raw"
    proof (rule ccontr)
      assume n: "v \<noteq> raw"
      with convert_to_secure_value_forms [OF w] have p: "is_proxy v" by auto
      have m: "mask_value d" using w n by (auto simp: convert_to_secure_value_def split: if_splits)
      then have "convert_type rt d v = Inr v" by (cases d) simp_all
      with c p np show False by simp
    qed
    from convert_type_settles [OF c [unfolded v] assms(2) np t False]
    have m: "\<not> mask_value d" and c': "convert_type rt d c = Inr c"
      and p: "precheck_empty_value (Some c) = Inr ()" by simp_all
    from m have "convert_to_secure_value pol (mask_value d) c = Inr c"
      by (simp add: convert_to_secure_value_def)
    with p c' t s u show ?thesis by (auto simp: set_value_Inr_iff)
  qed
next
  assume m: "mask_value d" and p: "is_proxy c"
  from m have id: "convert_type rt d x = Inr x" for x by (cases d) simp_all
  from assms(1) id have w: "convert_to_secure_value pol True raw = Inr c"
    by (auto simp: set_value_Inr_iff m)
  from w p assms(2) have s: "\<not> show_secured_values pol"
    by (auto simp: convert_to_secure_value_def split: if_splits)
  with w have k: "CreateSecureValue raw (make_secured_values_mutable pol) (Some TConfigValue) [] = Inr c"
    by (simp add: convert_to_secure_value_def)
  from k p assms(2) have ni: "\<not> is_ignored (Some TConfigValue) raw" "\<not> py_isinstance raw TNoneType"
    by (auto simp: CreateSecureValue_def)
  from CreateSecureValue_cases [OF k] p assms(2) have o: "original_data c = Some raw" by auto
  from proxy_not_ignored [OF p o assms(2) ni]
  have a: "CreateSecureValue c (make_secured_values_mutable pol) (Some TConfigValue) [] \<noteq> Inr c"
    by (intro CreateSecureValue_again) simp_all
  have again: "convert_to_secure_value pol True c = Inr c'" if "set_value rt pol d c = Inr c'" for c'
    using that id by (auto simp: set_value_Inr_iff m)
  show "set_value rt pol d c \<noteq> Inr c"
  proof
    assume "set_value rt pol d c = Inr c"
    from again [OF this] s a show False by (simp add: convert_to_secure_value_def)
  qed
  fix c'
  assume "set_value rt pol d c = Inr c'"
  from again [OF this] s
  have r: "CreateSecureValue c (make_secured_values_mutable pol) (Some TConfigValue) [] = Inr c'"
    by (simp add: convert_to_secure_value_def)
  with a have "c' \<noteq> c" by auto
  with CreateSecureValue_cases [OF r]
  have "is_proxy c' \<and> unmasked c' = Inr c" by (auto simp: unmasked_def)
  then show "is_proxy c'" and "unmasked c' = Inr c" by simp_all
qed

lemma set_value_text_42:
  "set_value sample_runtime masked_mutable (IntegerDataType no_user_validator True False) (PStr ''42'') =
     Inr (PInt 42)"
proof -
  have i: "py_int_str (int_max_str_digits sample_runtime) ''42'' = Inr 42"
    by (simp add: sample_runtime_def py_int_str_def int_scan_def is_literal_space_def
        is_digit_def digit_val_def)
  have a: "exactly_representable 42" by (simp add: exactly_representable_def)
  show ?thesis
    by (simp add: set_value_def convert_to_secure_value_def bind_result_simps precheck_plain
        IntegerDataType_convert_text [OF i] a validate_type_def py_isinstance_def
        run_user_validator_def no_user_validator_def)
qed

lemma set_value_secret:
  "set_value sample_runtime masked_immutable (SecretDataType no_user_validator) (PStr ''secret'') =
     Inr (SecureImm (PStr ''secret''))"
proof -
  have w: "convert_to_secure_value masked_immutable True (PStr ''secret'') = Inr (SecureImm (PStr ''secret''))"
    by (simp add: convert_to_secure_value_def masked_immutable_def CreateSecureValue_def
        bind_result_def is_ignored_def py_isinstance_def check_inheritable_class_def)
  show ?thesis
    by (simp add: set_value_def w bind_result_simps precheck_immutable_proxy validate_type_def
        py_isinstance_def run_user_validator_def no_user_validator_def)
qed

lemma set_value_secret_again:
  "set_value sample_runtime masked_immutable (SecretDataType no_user_validator) (SecureImm (PStr ''secret'')) =
     Inr (SecureImm (SecureImm (PStr ''secret'')))"
proof -
  have w: "convert_to_secure_value masked_immutable True (SecureImm (PStr ''secret'')) =
              Inr (SecureImm (SecureImm (PStr ''secret'')))"
    by (simp add: convert_to_secure_value_def masked_immutable_def CreateSecureValue_def
        SecureValue_call_def bind_result_def is_ignored_def py_isinstance_def
        check_inheritable_class_def)
  have p: "precheck_empty_value (Some (SecureImm (SecureImm (PStr ''secret'')))) = Inr ()"
    by (simp add: precheck_empty_value_def value_is_NOT_SET_def bind_result_def NOT_SET_def
        redaction_marker_def)
  show ?thesis
    by (simp add: set_value_def w p bind_result_simps validate_type_def py_isinstance_def
        run_user_validator_def no_user_validator_def)
qed

theorem set_value_idempotent_witness:
  "set_value sample_runtime masked_mutable (IntegerDataType no_user_validator True False) (PStr ''42'') =
     Inr (PInt 42)
   \<and> set_value sample_runtime masked_mutable (IntegerDataType no_user_validator True False) (PInt 42) =
     Inr (PInt 42)
   \<and> set_value sample_runtime masked_immutable (SecretDataType no_user_validator) (PStr ''secret'') =
     Inr (SecureImm (PStr ''secret''))
   \<and> set_value sample_runtime masked_immutable (SecretDataType no_user_validator) (SecureImm (PStr ''secret'')) \<noteq>
     Inr (SecureImm (PStr ''secret''))
   \<and> is_proxy (SecureImm (SecureImm (PStr ''secret'')))
   \<and> unmasked (SecureImm (SecureImm (PStr ''secret''))) = Inr (SecureImm (PStr ''secret''))"
proof -
  have a: "\<not> is_proxy (PStr ''42'')" and b: "\<not> is_proxy (PInt 42)"
    and c: "\<not> is_proxy (PStr ''secret'')" and d: "is_proxy (SecureImm (PStr ''secret''))"
    and m: "mask_value (SecretDataType no_user_validator)"
    by simp_all
  from set_value_idempotent [OF set_value_text_42 a] b
  have 1: "set_value sample_runtime masked_mutable (IntegerDataType no_user_validator True False) (PInt 42) =
     Inr (PInt 42)" by blast
  from set_value_idempotent [OF set_value_secret c] d m
  have 2: "set_value sample_runtime masked_immutable (SecretDataType no_user_validator) (SecureImm (PStr ''secret'')) \<noteq>
     Inr (SecureImm (PStr ''secret''))" by blast
  from set_value_idempotent [OF set_value_secret c] d m set_value_secret_again
  have 3: "is_proxy (SecureImm (SecureImm (PStr ''secret'')))
     \<and> unmasked (SecureImm (SecureImm (PStr ''secret''))) = Inr (SecureImm (PStr ''secret''))"
    by blast
  from set_value_text_42 1 set_value_secret 2 3 show ?thesis by blast
qed

text \<open>
  The claim as written fails for a secret-flagged descriptor: the canonical output is a
  proxy, and \<open>set_value\<close> on it yields a proxy of that proxy, whose reveal accessor
  returns the first proxy and whose text is the redaction marker.
\<close>

theorem set_value_idempotent_counterexample:
  "set_value sample_runtime masked_immutable (SecretDataType no_user_validator) (PStr ''secret'') =
     Inr (SecureImm (PStr ''secret''))
   \<and> set_value sample_runtime masked_immutable (SecretDataType no_user_validator) (SecureImm (PStr ''secret'')) =
     Inr (SecureImm (SecureImm (PStr ''secret'')))
   \<and> unmasked (SecureImm (PStr ''secret'')) = Inr (PStr ''secret'')
   \<and> unmasked (SecureImm (SecureImm (PStr ''secret''))) = Inr (SecureImm (PStr ''secret''))
   \<and> str_buffer (SecureImm (PStr ''secret'')) = Some ''secret''
   \<and> str_buffer (SecureImm (SecureImm (PStr ''secret''))) = Some ''******''"
  by (simp add: set_value_secret set_value_secret_again unmasked_def redaction_marker_def)

end
